theory Spec2Isabelle
  imports Complex_Main "HOL-Library.Multiset" "HOL-Library.Log_Nat"
begin

section \<open>Values of the source language\<close>

text \<open>
  The program is TypeScript. Two conventions hold for the whole development.

  \<^item> A JavaScript string is a sequence of UTF-16 code units; it is modelled as a list of
    natural numbers, one per code unit. \<open>ascii\<close> writes an ASCII literal. Identifiers are
    only ever compared for equality.
  \<^item> A finite JavaScript number is modelled by the rational it denotes. On such a number
    the idiom \<open>x || 0\<close> is the identity and \<open>x || d\<close> is \<open>if x = 0 then d else x\<close>. \<open>NaN\<close>
    and the infinities are values only where the code can meet them (the CSV import).
\<close>

type_synonym ustring = "nat list"

definition ascii :: "string \<Rightarrow> ustring" where
  "ascii s = map of_char s"

definition or_num :: "rat \<Rightarrow> rat \<Rightarrow> rat" where
  \<comment> \<open>\<open>x || d\<close> on numbers: \<open>0\<close> is the only falsy finite number\<close>
  "or_num x d = (if x = 0 then d else x)"

definition or_str :: "ustring \<Rightarrow> ustring \<Rightarrow> ustring" where
  \<comment> \<open>\<open>s || d\<close> on strings: the empty string is the only falsy string\<close>
  "or_str s d = (if s = [] then d else s)"

text \<open>
  JavaScript computes in IEEE 754 double precision: the result of an operation is the
  exact result rounded to the nearest double, to the one with an even significand on a
  tie. \<open>round_double\<close> is that rounding, for results that are finite: a double is a whole
  multiple, of at most 53 bits, of a power of two, which is \<open>2 ^ (e - 52)\<close> for a number
  from \<open>2 ^ e\<close> up to \<open>2 ^ (e + 1)\<close> and never less than \<open>2 ^ (- 1074)\<close>. Overflow to an
  infinity is outside the model.
\<close>

definition pow2 :: "int \<Rightarrow> rat" where
  "pow2 e = (if 0 \<le> e then 2 ^ nat e else 1 / 2 ^ nat (- e))"

definition exponent_of :: "rat \<Rightarrow> int" where
  \<comment> \<open>for \<open>x > 0\<close>: the \<open>e\<close> with \<open>2 ^ e \<le> x < 2 ^ (e + 1)\<close>\<close>
  "exponent_of x =
     (if 1 \<le> x then bitlen \<lfloor>x\<rfloor> - 1
      else (let k = bitlen \<lfloor>1 / x\<rfloor> - 1 in if x = pow2 (- k) then - k else - k - 1))"

definition round_half_even :: "rat \<Rightarrow> int" where
  "round_half_even y =
     (let f = \<lfloor>y\<rfloor>; d = y - of_int f
      in if d < 1 / 2 then f else if 1 / 2 < d then f + 1 else if even f then f else f + 1)"

definition round_double :: "rat \<Rightarrow> rat" where
  "round_double x =
     (if x = 0 then 0
      else let a = \<bar>x\<bar>; e = max (exponent_of a) (- 1022); u = pow2 (e - 52)
           in sgn x * of_int (round_half_even (a / u)) * u)"

definition fadd :: "rat \<Rightarrow> rat \<Rightarrow> rat" where
  \<comment> \<open>\<open>a + b\<close> as the code computes it\<close>
  "fadd a b = round_double (a + b)"

definition double_sum :: "rat list \<Rightarrow> rat" where
  \<comment> \<open>the numbers of a list added up from the left, starting from \<open>0\<close>, every addition rounded\<close>
  "double_sum xs = foldl fadd 0 xs"


section \<open>Price calculation\<close>

text \<open>
  \<open>calculateProductPrice\<close> of the price-list generator. The interfaces \<open>Material\<close>,
  \<open>TechCardItem\<close>, \<open>Product\<close> and \<open>PriceSettings\<close> become records; an optional, nullable
  field becomes an option.
\<close>

record Material =
  mat_id :: ustring
  mat_name :: ustring
  mat_article :: ustring
  mat_unit :: ustring
  mat_price :: rat
  mat_created_at :: ustring
  mat_updated_at :: ustring

record TechCardItem =
  materialId :: ustring
  quantity :: rat

text \<open>
  The stored tech card is declared as an array, but the calculator normalises whatever it
  finds: an array is taken as it is, any other object contributes its values (in the
  order \<open>Object.values\<close> enumerates them), anything else counts as empty.
\<close>

datatype tech_card_raw =
    TcArray "TechCardItem list"
  | TcObject "TechCardItem list"
  | TcOther

record Product =
  prod_id :: ustring
  prod_name :: ustring
  prod_article :: ustring
  tech_card :: tech_card_raw
  collection_id :: "ustring option"
  product_type_id :: "ustring option"
  finish_type_id :: "ustring option"

record PriceType =
  type_id :: ustring
  type_name :: ustring
  markup :: rat
  workCost :: rat

record PriceSettings =
  productTypes :: "PriceType list"
  finishTypes :: "PriceType list"

record Pricing =
  p_materialCost :: rat
  p_workCost :: rat
  p_basePrice :: rat
  p_finalPrice :: rat
  p_markup :: rat

fun techCardArr :: "tech_card_raw \<Rightarrow> TechCardItem list" where
  "techCardArr (TcArray xs) = xs"
| "techCardArr (TcObject vs) = vs"
| "techCardArr TcOther = []"

definition line_cost :: "Material list \<Rightarrow> TechCardItem \<Rightarrow> rat" where
  \<comment> \<open>\<open>(Number(it.quantity) || 0) * (mat?.price || 0)\<close>\<close>
  "line_cost materials it =
     or_num (quantity it) 0 *
     (case find (\<lambda>m. mat_id m = materialId it) materials of
        Some mat \<Rightarrow> or_num (mat_price mat) 0
      | None \<Rightarrow> 0)"

definition materialCost_of :: "Material list \<Rightarrow> TechCardItem list \<Rightarrow> rat" where
  \<comment> \<open>the \<open>reduce\<close> over the tech card, starting from \<open>0\<close>\<close>
  "materialCost_of materials arr = foldl (\<lambda>sum it. sum + line_cost materials it) 0 arr"

definition find_type :: "PriceType list \<Rightarrow> ustring option \<Rightarrow> PriceType option" where
  \<comment> \<open>\<open>types.find((p) => p.id === id)\<close>; an absent or null id equals no rule's id\<close>
  "find_type types tid =
     (case tid of None \<Rightarrow> None | Some i \<Rightarrow> find (\<lambda>p. type_id p = i) types)"

definition markup_of :: "PriceType option \<Rightarrow> rat" where
  \<comment> \<open>\<open>pt?.markup || 0\<close>\<close>
  "markup_of pt = (case pt of Some r \<Rightarrow> or_num (markup r) 0 | None \<Rightarrow> 0)"

definition workCost_of :: "PriceType option \<Rightarrow> rat" where
  \<comment> \<open>\<open>pt?.workCost || 0\<close>\<close>
  "workCost_of pt = (case pt of Some r \<Rightarrow> or_num (workCost r) 0 | None \<Rightarrow> 0)"

definition priceWithType :: "rat \<Rightarrow> PriceType option \<Rightarrow> rat" where
  "priceWithType basePrice pt = basePrice * (1 + markup_of pt / 100)"

definition calculateProductPrice :: "Product \<Rightarrow> Material list \<Rightarrow> PriceSettings \<Rightarrow> Pricing" where
  "calculateProductPrice product materials priceSettings =
     (let arr = techCardArr (tech_card product) in
      if length arr = 0 then
        \<lparr>p_materialCost = 0, p_workCost = 0, p_basePrice = 0, p_finalPrice = 0, p_markup = 0\<rparr>
      else
        let materialCost = materialCost_of materials arr;
            pt = find_type (productTypes priceSettings) (product_type_id product);
            workCost = workCost_of pt;
            basePrice = materialCost + workCost;
            withType = priceWithType basePrice pt;
            ft = find_type (finishTypes priceSettings) (finish_type_id product);
            finalPrice = withType * (1 + markup_of ft / 100);
            markup = (if basePrice > 0 then ((finalPrice - basePrice) / basePrice) * 100 else 0)
        in \<lparr>p_materialCost = materialCost, p_workCost = workCost, p_basePrice = basePrice,
            p_finalPrice = finalPrice, p_markup = markup\<rparr>)"

text \<open>
  The definitions above compute in exact arithmetic. The ones below are the same
  function with the result of every arithmetic operation, in the order in which the
  source evaluates them, passed through a rounding \<open>rnd\<close>. With \<open>rnd = round_double\<close> this is
  the arithmetic of the code; with the identity it is the exact function above.
\<close>

definition line_cost_in :: "(rat \<Rightarrow> rat) \<Rightarrow> Material list \<Rightarrow> TechCardItem \<Rightarrow> rat" where
  "line_cost_in rnd materials it =
     rnd (or_num (quantity it) 0 *
          (case find (\<lambda>m. mat_id m = materialId it) materials of
             Some mat \<Rightarrow> or_num (mat_price mat) 0
           | None \<Rightarrow> 0))"

definition materialCost_in :: "(rat \<Rightarrow> rat) \<Rightarrow> Material list \<Rightarrow> TechCardItem list \<Rightarrow> rat" where
  "materialCost_in rnd materials arr =
     foldl (\<lambda>sum it. rnd (sum + line_cost_in rnd materials it)) 0 arr"

definition with_markup_in :: "(rat \<Rightarrow> rat) \<Rightarrow> rat \<Rightarrow> PriceType option \<Rightarrow> rat" where
  \<comment> \<open>\<open>x * (1 + (t?.markup || 0) / 100)\<close>: a division, an addition, a multiplication\<close>
  "with_markup_in rnd x t = rnd (x * rnd (1 + rnd (markup_of t / 100)))"

definition calculateProductPrice_in ::
  "(rat \<Rightarrow> rat) \<Rightarrow> Product \<Rightarrow> Material list \<Rightarrow> PriceSettings \<Rightarrow> Pricing" where
  "calculateProductPrice_in rnd product materials priceSettings =
     (let arr = techCardArr (tech_card product) in
      if length arr = 0 then
        \<lparr>p_materialCost = 0, p_workCost = 0, p_basePrice = 0, p_finalPrice = 0, p_markup = 0\<rparr>
      else
        let materialCost = materialCost_in rnd materials arr;
            pt = find_type (productTypes priceSettings) (product_type_id product);
            workCost = workCost_of pt;
            basePrice = rnd (materialCost + workCost);
            withType = with_markup_in rnd basePrice pt;
            ft = find_type (finishTypes priceSettings) (finish_type_id product);
            finalPrice = with_markup_in rnd withType ft;
            markup = (if basePrice > 0
                      then rnd (rnd (rnd (finalPrice - basePrice) / basePrice) * 100) else 0)
        in \<lparr>p_materialCost = materialCost, p_workCost = workCost, p_basePrice = basePrice,
            p_finalPrice = finalPrice, p_markup = markup\<rparr>)"


section \<open>Collections page\<close>

text \<open>
  The page keeps the collections and writes an audit log. Timestamps and fresh identifiers
  come from the clock and a random source; they are parameters of the model.
\<close>

record Collection =
  col_id :: ustring
  col_name :: ustring
  col_description :: "ustring option"
  col_group :: "ustring option"
  is_archived :: bool
  pinned :: bool
  product_order :: "ustring list"
  cover_url :: "ustring option"
  col_created_at :: ustring
  col_updated_at :: ustring

record AuditEvent =
  ev_id :: ustring
  ev_at :: nat
  ev_action :: ustring
  ev_entity :: ustring
  ev_entityId :: "ustring option"
  ev_details :: "ustring option"

record CollectionsPage =
  collections :: "Collection list"
  audit :: "AuditEvent list"

definition logEvent ::
    "ustring \<Rightarrow> nat \<Rightarrow> ustring \<Rightarrow> ustring \<Rightarrow> ustring option \<Rightarrow> ustring option
      \<Rightarrow> AuditEvent list \<Rightarrow> AuditEvent list" where
  \<comment> \<open>the new event is put in front of the stored list\<close>
  "logEvent new_id ts action entity entityId details list =
     \<lparr>ev_id = new_id, ev_at = ts, ev_action = action, ev_entity = entity,
      ev_entityId = entityId, ev_details = details\<rparr> # list"

definition quickAddProductToCollection ::
    "ustring \<Rightarrow> ustring \<Rightarrow> nat \<Rightarrow> ustring \<Rightarrow> ustring \<Rightarrow> CollectionsPage \<Rightarrow> CollectionsPage" where
  "quickAddProductToCollection now new_id ts collectionId productId st =
     \<lparr>collections =
        map (\<lambda>c. if col_id c = collectionId \<and> productId \<notin> set (product_order c)
                 then c\<lparr>product_order := product_order c @ [productId], col_updated_at := now\<rparr>
                 else c)
            (collections st),
      audit = logEvent new_id ts (ascii ''add_product'') (ascii ''collection'')
                (Some collectionId) (Some productId) (audit st)\<rparr>"

text \<open>
  The drag-and-drop editor holds the order being edited and the id being dragged.
  \<open>!draggingId\<close> is true for \<open>null\<close> and for the empty string.
\<close>

record DnDEditor =
  order :: "ustring list"
  draggingId :: "ustring option"
  overId :: "ustring option"

primrec indexOf :: "'a list \<Rightarrow> 'a \<Rightarrow> int" where
  \<comment> \<open>\<open>Array.prototype.indexOf\<close>: the first position, or \<open>-1\<close>\<close>
  "indexOf [] x = -1"
| "indexOf (y # ys) x =
     (if y = x then 0 else (let r = indexOf ys x in if r < 0 then -1 else r + 1))"

definition insertAt :: "'a list \<Rightarrow> int \<Rightarrow> 'a \<Rightarrow> 'a list" where
  \<comment> \<open>\<open>copy.splice(idx, 0, val)\<close>: a negative start counts from the end, and the start is
      clamped to the array\<close>
  "insertAt arr idx v =
     (let n = int (length arr);
          start = (if idx < 0 then max (n + idx) 0 else min idx n)
      in take (nat start) arr @ v # drop (nat start) arr)"

definition onDropOverItem :: "DnDEditor \<Rightarrow> ustring \<Rightarrow> DnDEditor" where
  "onDropOverItem st targetId =
     (case draggingId st of
        None \<Rightarrow> st
      | Some d \<Rightarrow>
          if d = [] \<or> d = targetId then st
          else
            let next = filter (\<lambda>i. i \<noteq> d) (order st);
                targetIdx = indexOf next targetId;
                next = insertAt next targetIdx d
            in st\<lparr>order := next, draggingId := None, overId := None\<rparr>)"

definition onDropToListEnd :: "DnDEditor \<Rightarrow> DnDEditor" where
  "onDropToListEnd st =
     (case draggingId st of
        None \<Rightarrow> st
      | Some d \<Rightarrow>
          if d = [] then st
          else st\<lparr>order := filter (\<lambda>i. i \<noteq> d) (order st) @ [d],
                  draggingId := None, overId := None\<rparr>)"


section \<open>Text helpers\<close>

definition is_space :: "nat \<Rightarrow> bool" where
  \<comment> \<open>the code units \<open>String.prototype.trim\<close> strips: white space and line terminators\<close>
  "is_space c \<longleftrightarrow>
     c \<in> set [9, 10, 11, 12, 13, 32, 160, 5760, 8232, 8233, 8239, 8287, 12288, 65279]
     \<or> (8192 \<le> c \<and> c \<le> 8202)"

definition trim :: "ustring \<Rightarrow> ustring" where
  "trim s = rev (dropWhile is_space (rev (dropWhile is_space s)))"


section \<open>Document builder\<close>

text \<open>
  \<open>WasserPDFGenerator.generateDoc\<close>. The rendering engine is an external library; the model
  keeps what the builder hands to it: the font set on the document, whether a cover page
  was drawn, one table per series with its body rows and optional foot row, the optional
  grand-total row and the optional footer note. Amounts stay numbers: the currency
  formatter is the platform's.
\<close>

datatype PdfTemplate = Modern | Nordic | Executive

datatype TableTheme = Striped | Grid | Plain

record Theme =
  theme_key :: PdfTemplate
  brand :: ustring
  topBand :: bool
  bandHeight :: nat
  underline :: bool
  tableTheme :: TableTheme
  fontUrl :: ustring
  fontName :: ustring

fun THEMES :: "PdfTemplate \<Rightarrow> Theme" where
  "THEMES Modern =
     \<lparr>theme_key = Modern, brand = ascii ''#2563eb'', topBand = True, bandHeight = 24,
      underline = False, tableTheme = Striped,
      fontUrl = ascii ''https://raw.githubusercontent.com/google/fonts/main/ofl/spacegrotesk/SpaceGrotesk-Regular.ttf'',
      fontName = ascii ''SpaceGrotesk''\<rparr>"
| "THEMES Nordic =
     \<lparr>theme_key = Nordic, brand = ascii ''#0f172a'', topBand = False, bandHeight = 0,
      underline = True, tableTheme = Plain,
      fontUrl = ascii ''https://raw.githubusercontent.com/google/fonts/main/ofl/inter/Inter%5Bwght%5D.ttf'',
      fontName = ascii ''Inter''\<rparr>"
| "THEMES Executive =
     \<lparr>theme_key = Executive, brand = ascii ''#1d4ed8'', topBand = False, bandHeight = 0,
      underline = True, tableTheme = Grid,
      fontUrl = ascii ''https://raw.githubusercontent.com/google/fonts/main/apache/roboto/Roboto-Regular.ttf'',
      fontName = ascii ''Roboto''\<rparr>"

record SeriesItem =
  si_article :: ustring
  si_name :: ustring
  si_type :: "ustring option"
  si_dimensions :: "ustring option"
  si_material :: "ustring option"
  si_color :: "ustring option"
  price :: rat

record ProductSeries =
  series :: ustring
  seriesDesc :: "ustring option"
  items :: "SeriesItem list"

record DocumentData =
  title :: ustring
  includeCover :: "bool option"
  brandColor :: "ustring option"
  showGroupTotals :: bool
  showGrandTotal :: bool
  footerNote :: "ustring option"

record GenerateInput =
  logoUrl :: "ustring option"
  documentData :: DocumentData
  products :: "ProductSeries list"

text \<open>
  What the builder finds in the browser when it runs.

  \<^item> \<open>umd_ready\<close>: on entry \<open>window.jspdf.jsPDF\<close> and its \<open>API.autoTable\<close> are both there, so
    that the loader returns at once.
  \<^item> \<open>loadingPromise\<close>: the loader module's variable of that name on entry, \<open>None\<close> for
    \<open>null\<close>, else the outcome of the load started by an earlier call. The variable is never
    reset, so a load that failed once fails every later build.
  \<^item> \<open>jspdf_script_loads\<close>, \<open>autotable_script_loads\<close>: whether \<open>loadScript\<close> of the script ends
    with its \<open>load\<close> event (else with its \<open>error\<close> event).
  \<^item> \<open>ctor_available\<close>: \<open>getJsPdfCtor()\<close>, which is \<open>window.jspdf?.jsPDF || window.jsPDF\<close>,
    is not null when the builder calls it.
  \<^item> \<open>autoTable_attached\<close>: the document made by the constructor has an \<open>autoTable\<close>.
  \<^item> \<open>font_fetch_ok\<close>, \<open>logo_fetch_ok\<close>: the font can be fetched and added, the logo can be
    fetched.

  Every request is taken to settle, with success or with failure, no other code is taken
  to add a tag for one of the two scripts, and the engine's own drawing calls are taken to
  return. \<open>loadedFonts\<close> is the builder module's cache of registered font names; like
  \<open>loadingPromise\<close> it outlives a build.
\<close>

datatype load_outcome = Resolved | Rejected ustring

record PdfEnv =
  umd_ready :: bool
  loadingPromise :: "load_outcome option"
  jspdf_script_loads :: bool
  autotable_script_loads :: bool
  ctor_available :: bool
  autoTable_attached :: bool
  font_fetch_ok :: bool
  logo_fetch_ok :: bool

datatype js_error = Error ustring

definition jsPdfUrl :: ustring where
  "jsPdfUrl = ascii ''https://cdn.jsdelivr.net/npm/jspdf@2.5.1/dist/jspdf.umd.min.js''"

definition autoTableUrl :: ustring where
  "autoTableUrl =
     ascii ''https://cdn.jsdelivr.net/npm/jspdf-autotable@3.8.2/dist/jspdf.plugin.autotable.min.js''"

definition msg_load_failed :: "ustring \<Rightarrow> ustring" where
  \<comment> \<open>the message of the error with which \<open>loadScript(src)\<close> rejects\<close>
  "msg_load_failed src = ascii ''Failed to load '' @ src"

definition load_scripts :: "PdfEnv \<Rightarrow> load_outcome" where
  \<comment> \<open>the body of the loading promise: the engine's script, then the plugin's\<close>
  "load_scripts env =
     (if \<not> jspdf_script_loads env then Rejected (msg_load_failed jsPdfUrl)
      else if \<not> autotable_script_loads env then Rejected (msg_load_failed autoTableUrl)
      else Resolved)"

definition ensureJsPdf :: "PdfEnv \<Rightarrow> load_outcome option \<times> load_outcome" where
  \<comment> \<open>returns the module's \<open>loadingPromise\<close> after the call and how the call settles\<close>
  "ensureJsPdf env =
     (if umd_ready env then (loadingPromise env, Resolved)
      else
        let p = (case loadingPromise env of None \<Rightarrow> load_scripts env | Some started \<Rightarrow> started)
        in (Some p, p))"

definition msg_engine :: ustring where
  \<comment> \<open>"jsPDF", then the Russian for "is not available"\<close>
  "msg_engine = ascii ''jsPDF '' @ [1085, 1077, 32, 1076, 1086, 1089, 1090, 1091, 1087, 1077, 1085]"

definition msg_plugin :: ustring where
  \<comment> \<open>"jspdf-autotable", then the Russian for "is not attached"\<close>
  "msg_plugin =
     ascii ''jspdf-autotable '' @ [1085, 1077, 32, 1087, 1086, 1076, 1082, 1083, 1102, 1095, 1077, 1085]"

definition default_series_name :: ustring where
  \<comment> \<open>the Russian for "Series"\<close>
  "default_series_name = [1057, 1077, 1088, 1080, 1103]"

record Row =
  r_article :: ustring
  r_name :: ustring
  r_type :: ustring
  r_dimensions :: ustring
  r_material :: ustring
  r_color :: ustring
  r_price :: rat

record SeriesTable =
  heading :: ustring
  description :: "ustring option"
  body :: "Row list"
  foot :: "rat option"

record PdfDoc =
  doc_theme :: Theme
  doc_font :: ustring
  footer_logo :: bool  \<comment> \<open>\<open>footerLogo\<close> is not null: the logo was fetched before the pages are drawn\<close>
  cover :: bool
  tables :: "SeriesTable list"
  summary :: "rat option"
  doc_note :: "ustring option"

definition opt_str :: "ustring option \<Rightarrow> ustring" where
  \<comment> \<open>\<open>s || ''\<close> on an optional string\<close>
  "opt_str s = (case s of None \<Rightarrow> [] | Some t \<Rightarrow> t)"

definition truthy_str :: "ustring option \<Rightarrow> ustring option" where
  \<comment> \<open>an optional string used as a condition: absent and empty are both false\<close>
  "truthy_str s = (case s of None \<Rightarrow> None | Some t \<Rightarrow> if t = [] then None else Some t)"

definition registerFont :: "PdfEnv \<Rightarrow> ustring list \<Rightarrow> ustring \<Rightarrow> ustring list \<times> ustring \<times> bool" where
  \<comment> \<open>returns the cache, the font set on the document and the function's result\<close>
  "registerFont env loadedFonts name =
     (if name \<notin> set loadedFonts then
        if font_fetch_ok env then (name # loadedFonts, name, True)
        else (loadedFonts, ascii ''helvetica'', False)
      else (loadedFonts, name, True))"

text \<open>The totals are sums of doubles: every addition rounds (\<open>fadd\<close>).\<close>

definition seriesTotal :: "ProductSeries \<Rightarrow> rat" where
  \<comment> \<open>\<open>series.items.reduce((sum, it) => sum + (Number(it.price) || 0), 0)\<close>\<close>
  "seriesTotal s = foldl (\<lambda>sum it. fadd sum (or_num (price it) 0)) 0 (items s)"

definition grandTotal :: "ProductSeries list \<Rightarrow> rat" where
  \<comment> \<open>\<open>grandTotal += seriesTotal\<close>, series after series, starting from \<open>0\<close>\<close>
  "grandTotal ps = foldl (\<lambda>g s. fadd g (seriesTotal s)) 0 ps"

definition body_row :: "SeriesItem \<Rightarrow> Row" where
  "body_row it =
     \<lparr>r_article = si_article it, r_name = si_name it, r_type = opt_str (si_type it),
      r_dimensions = opt_str (si_dimensions it), r_material = opt_str (si_material it),
      r_color = opt_str (si_color it), r_price = or_num (price it) 0\<rparr>"

definition series_table :: "DocumentData \<Rightarrow> ProductSeries \<Rightarrow> SeriesTable" where
  "series_table dd s =
     \<lparr>heading = or_str (series s) default_series_name,
      description = truthy_str (seriesDesc s),
      body = map body_row (items s),
      foot = (if showGroupTotals dd then Some (seriesTotal s) else None)\<rparr>"

definition generateDoc ::
    "PdfEnv \<Rightarrow> ustring list \<Rightarrow> GenerateInput \<Rightarrow> PdfTemplate \<Rightarrow> ustring list \<times> (js_error + PdfDoc)" where
  "generateDoc env loadedFonts input template =
     (case snd (ensureJsPdf env) of
        Rejected msg \<Rightarrow> (loadedFonts, Inl (Error msg))
      | Resolved \<Rightarrow>
          if \<not> ctor_available env then (loadedFonts, Inl (Error msg_engine))
          else
            let base = THEMES template;
                overrideBrand = truthy_str (map_option trim (brandColor (documentData input)));
                theme = (case overrideBrand of Some b \<Rightarrow> base\<lparr>brand := b\<rparr> | None \<Rightarrow> base);
                (fonts, font, registered) = registerFont env loadedFonts (fontName theme);
                with_cover = (includeCover (documentData input) \<noteq> Some False)
            in if \<not> autoTable_attached env then (fonts, Inl (Error msg_plugin))
               else
                 (fonts,
                  Inr \<lparr>doc_theme = theme, doc_font = font,
                       footer_logo = (truthy_str (logoUrl input) \<noteq> None \<and> logo_fetch_ok env),
                       cover = with_cover,
                       tables = map (series_table (documentData input)) (products input),
                       summary =
                         (if showGrandTotal (documentData input) \<and> length (products input) > 0
                          then Some (grandTotal (products input)) else None),
                       doc_note = truthy_str (footerNote (documentData input))\<rparr>))"


section \<open>Price-list page: grouping and totals\<close>

text \<open>
  The price-list page computes one row per product, groups the rows by the chosen mode and
  renders group totals and a grand total. A \<open>Map\<close> keeps its keys in insertion order; it is
  an association list here.
\<close>

datatype GroupBy = GNone | GProductType | GCollection

record ComputedRow =
  row_id :: ustring
  row_name :: ustring
  row_article :: ustring
  productType :: ustring
  finishType :: ustring
  basePrice :: rat
  finalPrice :: rat
  collectionId :: "ustring option"

definition key_all :: ustring where
  \<comment> \<open>the Russian for "All goods"\<close>
  "key_all = [1042, 1089, 1077, 32, 1090, 1086, 1074, 1072, 1088, 1099]"

definition key_no_type :: ustring where
  \<comment> \<open>the Russian for "No type"\<close>
  "key_no_type = [1041, 1077, 1079, 32, 1090, 1080, 1087, 1072]"

definition key_no_collection :: ustring where
  \<comment> \<open>the Russian for "No collection"\<close>
  "key_no_collection = [1041, 1077, 1079, 32, 1082, 1086, 1083, 1083, 1077, 1082, 1094, 1080, 1080]"

fun push_to_group :: "ustring \<Rightarrow> 'a \<Rightarrow> (ustring \<times> 'a list) list \<Rightarrow> (ustring \<times> 'a list) list" where
  \<comment> \<open>\<open>if (!map.has(key)) map.set(key, []); map.get(key).push(row)\<close>\<close>
  "push_to_group key row [] = [(key, [row])]"
| "push_to_group key row ((k, rows) # m) =
     (if k = key then (k, rows @ [row]) # m else (k, rows) # push_to_group key row m)"

definition group_rows :: "('a \<Rightarrow> ustring) \<Rightarrow> 'a list \<Rightarrow> (ustring \<times> 'a list) list" where
  "group_rows keyf rows = foldl (\<lambda>m row. push_to_group (keyf row) row m) [] rows"

definition groups :: "GroupBy \<Rightarrow> ComputedRow list \<Rightarrow> (ustring \<times> ComputedRow list) list" where
  "groups groupBy computed =
     (case groupBy of
        GNone \<Rightarrow> [(key_all, computed)]
      | GProductType \<Rightarrow> group_rows (\<lambda>row. or_str (productType row) key_no_type) computed
      | GCollection \<Rightarrow>
          group_rows (\<lambda>row. or_str (opt_str (collectionId row)) key_no_collection) computed)"

definition groupTotal :: "ComputedRow list \<Rightarrow> rat" where
  "groupTotal rows = foldl (\<lambda>sum r. fadd sum (or_num (finalPrice r) 0)) 0 rows"

definition grandTotal_pdf :: "ComputedRow list \<Rightarrow> rat" where
  \<comment> \<open>the PDF view sums over all computed rows\<close>
  "grandTotal_pdf computed = foldl (\<lambda>sum r. fadd sum (or_num (finalPrice r) 0)) 0 computed"

definition grandTotal_html :: "(ustring \<times> ComputedRow list) list \<Rightarrow> rat" where
  \<comment> \<open>the print view sums the groups' sums\<close>
  "grandTotal_html gs =
     foldl (\<lambda>sum g. fadd sum (foldl (\<lambda>s r. fadd s (or_num (finalPrice r) 0)) 0 (snd g))) 0 gs"


section \<open>AI service with local fallback\<close>

text \<open>
  \<open>toLowerCase\<close> is modelled on the Latin and Cyrillic letters; other code units are left
  as they are.
\<close>

definition lower_unit :: "nat \<Rightarrow> nat" where
  "lower_unit c =
     (if 65 \<le> c \<and> c \<le> 90 then c + 32
      else if 192 \<le> c \<and> c \<le> 222 \<and> c \<noteq> 215 then c + 32
      else if 1040 \<le> c \<and> c \<le> 1071 then c + 32
      else if 1024 \<le> c \<and> c \<le> 1039 then c + 80
      else c)"

definition toLowerCase :: "ustring \<Rightarrow> ustring" where
  "toLowerCase s = map lower_unit s"

fun str_includes :: "ustring \<Rightarrow> ustring \<Rightarrow> bool" where
  \<comment> \<open>\<open>s.includes(k)\<close>: \<open>k\<close> occurs in \<open>s\<close> as a contiguous run\<close>
  "str_includes [] k = (k = [])"
| "str_includes (c # cs) k = (take (length k) (c # cs) = k \<or> str_includes cs k)"

fun join :: "ustring \<Rightarrow> ustring list \<Rightarrow> ustring" where
  "join sep [] = []"
| "join sep [x] = x"
| "join sep (x # y # ys) = x @ sep @ join sep (y # ys)"

record MaterialsCatalogItem =
  mc_name :: ustring
  mc_article :: "ustring option"
  mc_unit :: "ustring option"
  mc_price :: "rat option"

record AiTechCardItem =
  ai_name :: ustring
  ai_article :: "ustring option"
  ai_quantity :: rat
  ai_unit :: "ustring option"

definition low :: "ustring \<Rightarrow> ustring" where
  \<comment> \<open>\<open>String(s || '').trim().toLowerCase()\<close>\<close>
  "low s = toLowerCase (trim s)"

definition low_opt :: "ustring option \<Rightarrow> ustring" where
  \<comment> \<open>\<open>low\<close> of an optional string: \<open>undefined\<close> counts as the empty string\<close>
  "low_opt s = low (opt_str s)"

definition hasAny :: "ustring \<Rightarrow> ustring list \<Rightarrow> bool" where
  "hasAny text keys = (let t = low text in list_ex (\<lambda>k. str_includes t (low k)) keys)"

definition findInCatalog ::
    "MaterialsCatalogItem list \<Rightarrow> ustring option \<Rightarrow> ustring option \<Rightarrow> MaterialsCatalogItem option" where
  "findInCatalog catalog name article =
     (case find (\<lambda>m. low_opt (mc_article m) = low_opt article) catalog of
        Some byArt \<Rightarrow> Some byArt
      | None \<Rightarrow>
          (case find (\<lambda>m. low (mc_name m) = low_opt name) catalog of
             Some byName \<Rightarrow> Some byName
           | None \<Rightarrow> find (\<lambda>m. str_includes (low (mc_name m)) (low_opt name)) catalog))"

definition name_or :: "MaterialsCatalogItem option \<Rightarrow> ustring \<Rightarrow> ustring" where
  \<comment> \<open>\<open>m?.name || d\<close>\<close>
  "name_or m d = (case m of None \<Rightarrow> d | Some x \<Rightarrow> or_str (mc_name x) d)"

definition article_of :: "MaterialsCatalogItem option \<Rightarrow> ustring option" where
  \<comment> \<open>\<open>m?.article\<close>\<close>
  "article_of m = (case m of None \<Rightarrow> None | Some x \<Rightarrow> mc_article x)"

definition article_or :: "MaterialsCatalogItem option \<Rightarrow> ustring \<Rightarrow> ustring option" where
  \<comment> \<open>\<open>m?.article || d\<close>\<close>
  "article_or m d = Some (or_str (opt_str (article_of m)) d)"

definition unit_or :: "MaterialsCatalogItem option \<Rightarrow> ustring \<Rightarrow> ustring option" where
  \<comment> \<open>\<open>m?.unit || d\<close>\<close>
  "unit_or m d =
     Some (or_str (opt_str (case m of None \<Rightarrow> None | Some x \<Rightarrow> mc_unit x)) d)"

definition toFixed2 :: "rat \<Rightarrow> rat" where
  \<comment> \<open>\<open>Number(x.toFixed(2))\<close>: the nearest multiple of \<open>1/100\<close>, the larger one on a tie\<close>
  "toFixed2 x = of_int \<lfloor>x * 100 + 1 / 2\<rfloor> / 100"

text \<open>The Russian words of the heuristics, as code units.\<close>

definition kw_tumb :: ustring where "kw_tumb = [1090, 1091, 1084, 1073]"
definition kw_penal :: ustring where "kw_penal = [1087, 1077, 1085, 1072, 1083]"
definition kw_zerkal :: ustring where "kw_zerkal = [1079, 1077, 1088, 1082, 1072, 1083]"
definition kw_1000mm :: ustring where "kw_1000mm = [49, 48, 48, 48, 1084, 1084]"
definition kw_dver :: ustring where "kw_dver = [1076, 1074, 1077, 1088]"
definition kw_petl :: ustring where "kw_petl = [1087, 1077, 1090, 1083]"
definition kw_ruchk :: ustring where "kw_ruchk = [1088, 1091, 1095, 1082]"

definition nm_mirror_glass :: ustring where
  \<comment> \<open>catalog name searched for the mirror glass\<close>
  "nm_mirror_glass =
     [1057, 1090, 1077, 1082, 1083, 1086, 32, 1079, 1077, 1088, 1082, 1072, 1083, 1100, 1085, 1086, 1077]"

definition nm_glass_mirror :: ustring where
  \<comment> \<open>default name of the mirror line\<close>
  "nm_glass_mirror =
     [1047, 1077, 1088, 1082, 1072, 1083, 1086, 32, 1089, 1090, 1077, 1082, 1083, 1103, 1085, 1085,
      1086, 1077]"

definition nm_edge :: ustring where
  "nm_edge = [1050, 1088, 1086, 1084, 1082, 1072, 32, 1055, 1042, 1061, 32, 50, 1084, 1084]"

definition nm_ldsp :: ustring where
  "nm_ldsp = [1051, 1044, 1057, 1055, 32, 49, 56, 1084, 1084, 32, 1041, 1077, 1083, 1099, 1081]"

definition nm_hinge :: ustring where
  "nm_hinge = [1055, 1077, 1090, 1083, 1103, 32, 99, 108, 105, 112, 45, 111, 110]"

definition nm_handle :: ustring where
  "nm_handle = [1056, 1091, 1095, 1082, 1072, 32, 1089, 1082, 1086, 1073, 1072]"

definition u_m2 :: ustring where "u_m2 = [1084, 50]"
definition u_pogm :: ustring where "u_pogm = [1087, 1086, 1075, 46, 1084]"
definition u_sht :: ustring where "u_sht = [1096, 1090]"

definition base_quantities :: "bool \<Rightarrow> bool \<Rightarrow> bool \<Rightarrow> rat \<times> rat \<times> rat" where
  \<comment> \<open>\<open>ldspQty\<close>, \<open>edgeQty\<close>, \<open>hingeQty\<close>: the defaults, then the size heuristics\<close>
  "base_quantities is600 is800 is1000 =
     (if is600 then (1.5, 4, 2)
      else if is800 then (2.2, 7, 2)
      else if is1000 then (2.8, 9, 4)
      else (1.8, 6, 2))"

definition penal_quantities :: "bool \<Rightarrow> rat \<times> rat \<times> rat \<Rightarrow> rat \<times> rat \<times> rat" where
  \<comment> \<open>\<open>if (isPenal) { ldspQty += 0.8; edgeQty += 2; hingeQty = 4 }\<close>\<close>
  "penal_quantities isPenal q =
     (case q of (ldspQty, edgeQty, hingeQty) \<Rightarrow>
        if isPenal then (ldspQty + 0.8, edgeQty + 2, 4) else (ldspQty, edgeQty, hingeQty))"

definition mirror_list :: "MaterialsCatalogItem list \<Rightarrow> bool \<Rightarrow> bool \<Rightarrow> AiTechCardItem list" where
  "mirror_list materialsCatalog is600 is800 =
     (let glass = findInCatalog materialsCatalog (Some nm_mirror_glass) None;
          edge = findInCatalog materialsCatalog (Some nm_edge) (Some (ascii ''EDGE-2-PVC''))
      in [\<lparr>ai_name = name_or glass nm_glass_mirror, ai_article = article_of glass,
            ai_quantity = (if is600 then 0.35 else if is800 then 0.5 else 0.6),
            ai_unit = unit_or glass u_m2\<rparr>,
           \<lparr>ai_name = name_or edge nm_edge, ai_article = article_or edge (ascii ''EDGE-2-PVC''),
            ai_quantity = 2, ai_unit = unit_or edge u_pogm\<rparr>])"

definition furniture_list ::
    "MaterialsCatalogItem list \<Rightarrow> bool \<Rightarrow> bool \<Rightarrow> bool \<Rightarrow> rat \<times> rat \<times> rat \<Rightarrow> AiTechCardItem list" where
  \<comment> \<open>\<open>with_hinges\<close> and \<open>with_handles\<close> are the two conditions on the text\<close>
  "furniture_list materialsCatalog with_hinges with_handles is600 q =
     (case q of (ldspQty, edgeQty, hingeQty) \<Rightarrow>
        let ldsp = findInCatalog materialsCatalog (Some nm_ldsp) (Some (ascii ''LDSP-18-W''));
            edge = findInCatalog materialsCatalog (Some nm_edge) (Some (ascii ''EDGE-2-PVC''));
            hinge = findInCatalog materialsCatalog (Some nm_hinge) (Some (ascii ''HINGE-CLIP''));
            handle = findInCatalog materialsCatalog (Some nm_handle) None
        in [\<lparr>ai_name = name_or ldsp nm_ldsp, ai_article = article_or ldsp (ascii ''LDSP-18-W''),
              ai_quantity = toFixed2 ldspQty, ai_unit = unit_or ldsp u_m2\<rparr>,
             \<lparr>ai_name = name_or edge nm_edge, ai_article = article_or edge (ascii ''EDGE-2-PVC''),
              ai_quantity = edgeQty, ai_unit = unit_or edge u_pogm\<rparr>]
           @ (if with_hinges
              then [\<lparr>ai_name = name_or hinge nm_hinge,
                      ai_article = article_or hinge (ascii ''HINGE-CLIP''),
                      ai_quantity = hingeQty, ai_unit = unit_or hinge u_sht\<rparr>]
              else [])
           @ (if with_handles
              then [\<lparr>ai_name = name_or handle nm_handle, ai_article = article_of handle,
                      ai_quantity = (if is600 then 2 else 2), ai_unit = unit_or handle u_sht\<rparr>]
              else []))"

definition techCardSuggest ::
    "ustring \<Rightarrow> ustring option \<Rightarrow> MaterialsCatalogItem list \<Rightarrow> AiTechCardItem list" where
  "techCardSuggest productName brief materialsCatalog =
     (let text = productName @ ascii '' '' @ opt_str brief;
          isTumba = hasAny text [kw_tumb, ascii ''tumb'', ascii ''tb-''];
          isPenal = hasAny text [kw_penal, ascii ''penal''];
          isMirror = hasAny text [kw_zerkal, ascii ''mirror'', ascii ''mir-''];
          is600 = hasAny text [ascii ''600''];
          is800 = hasAny text [ascii ''800''];
          is1000 = hasAny text [ascii ''1000'', kw_1000mm, ascii ''1 000''];
          q = penal_quantities isPenal (base_quantities is600 is800 is1000)
      in if isMirror then mirror_list materialsCatalog is600 is800
         else furniture_list materialsCatalog
                (isTumba \<or> isPenal \<or> hasAny text [kw_dver, kw_petl, ascii ''hinge''])
                (hasAny text [kw_ruchk, ascii ''handle'']) is600 q)"

definition txt_new_collection :: ustring where
  \<comment> \<open>the Russian for "New collection"\<close>
  "txt_new_collection =
     [1053, 1086, 1074, 1072, 1103, 32, 1082, 1086, 1083, 1083, 1077, 1082, 1094, 1080, 1103]"

definition txt_lineup :: ustring where
  \<comment> \<open>the Russian for "The line-up consists of: "\<close>
  "txt_lineup =
     [1042, 32, 1083, 1080, 1085, 1077, 1081, 1082, 1091, 32, 1074, 1093, 1086, 1076, 1103, 1090, 58, 32]"

definition txt_and_more :: ustring where
  \<comment> \<open>the Russian for " and others"\<close>
  "txt_and_more = [32, 1080, 32, 1076, 1088, 46]"

definition txt_pitch :: ustring where
  "txt_pitch =
     [1050, 1086, 1083, 1083, 1077, 1082, 1094, 1080, 1103, 32, 1089, 1086, 1095, 1077, 1090, 1072,
      1077, 1090, 32, 1092, 1091, 1085, 1082, 1094, 1080, 1086, 1085, 1072, 1083, 1100, 1085, 1086,
      1089, 1090, 1100, 32, 1080, 32, 1083, 1072, 1082, 1086, 1085, 1080, 1095, 1085, 1091, 1102, 32,
      1101, 1089, 1090, 1077, 1090, 1080, 1082, 1091, 44, 32, 1087, 1086, 1076, 1086, 1081, 1076,
      1105, 1090, 32, 1076, 1083, 1103, 32, 1089, 1086, 1074, 1088, 1077, 1084, 1077, 1085, 1085,
      1099, 1093, 32, 1080, 1085, 1090, 1077, 1088, 1100, 1077, 1088, 1086, 1074, 46]"

definition txt_selection :: ustring where
  \<comment> \<open>a dash and the fixed middle sentence\<close>
  "txt_selection =
     [32, 8212, 32, 1072, 1082, 1090, 1091, 1072, 1083, 1100, 1085, 1072, 1103, 32, 1087, 1086, 1076,
      1073, 1086, 1088, 1082, 1072, 32, 1080, 1079, 1076, 1077, 1083, 1080, 1081, 32, 1089, 32, 1087,
      1088, 1086, 1076, 1091, 1084, 1072, 1085, 1085, 1099, 1084, 1080, 32, 1088, 1072, 1079, 1084,
      1077, 1088, 1072, 1084, 1080, 32, 1080, 32, 1084, 1072, 1090, 1077, 1088, 1080, 1072, 1083,
      1072, 1084, 1080, 46, 32]"

definition collectionDescription :: "ustring \<Rightarrow> ustring option \<Rightarrow> ustring list \<Rightarrow> ustring" where
  "collectionDescription name grp productNames =
     (let n = or_str name txt_new_collection;
          g = (case truthy_str grp of Some x \<Rightarrow> ascii '' ('' @ x @ ascii '')'' | None \<Rightarrow> []);
          lineup =
            (if length productNames \<noteq> 0
             then txt_lineup @ join (ascii '', '') (take 4 productNames)
                  @ (if length productNames > 4 then txt_and_more else []) @ ascii ''. ''
             else [])
      in n @ g @ txt_selection @ lineup @ txt_pitch)"

text \<open>
  The gateway call. What the network does is the parameter \<open>remote\<close>: a response that is not
  2xx (status and body text), a thrown error (with its message, if any), or a 2xx response
  with its parsed JSON body.
\<close>

record RemoteItem =
  ri_name :: ustring
  ri_article :: "ustring option"
  ri_quantity :: "rat option"
  ri_unit :: "ustring option"

record RemoteBody =
  rb_error :: "ustring option"
  rb_description :: "ustring option"
  rb_items :: "RemoteItem list option"

datatype remote = HttpError nat ustring | Thrown "ustring option" | Json RemoteBody

record AiResponse =
  ok :: bool
  data :: "RemoteBody option"
  error :: "ustring option"

fun digit_string :: "nat \<Rightarrow> ustring" where
  "digit_string n = (if n < 10 then [48 + n] else digit_string (n div 10) @ [48 + n mod 10])"

definition post :: "remote \<Rightarrow> AiResponse" where
  "post r =
     (case r of
        HttpError status txt \<Rightarrow>
          \<lparr>ok = False, data = None,
           error = Some (ascii ''HTTP '' @ digit_string status @ ascii '': ''
                         @ or_str txt (ascii ''AI endpoint error''))\<rparr>
      | Thrown msg \<Rightarrow>
          \<lparr>ok = False, data = None,
           error = Some (or_str (opt_str msg) (ascii ''Network error''))\<rparr>
      | Json b \<Rightarrow>
          (case truthy_str (rb_error b) of
             Some e \<Rightarrow> \<lparr>ok = False, data = None, error = Some e\<rparr>
           | None \<Rightarrow> \<lparr>ok = True, data = Some b, error = None\<rparr>))"

definition generateCollectionDescription ::
    "remote \<Rightarrow> ustring \<Rightarrow> ustring option \<Rightarrow> ustring list \<Rightarrow> ustring" where
  "generateCollectionDescription r name grp productNames =
     (let remote = post r;
          desc = (if ok remote
                  then trim (opt_str (case data remote of None \<Rightarrow> None
                                       | Some b \<Rightarrow> rb_description b))
                  else [])
      in if ok remote \<and> desc \<noteq> [] then desc
         else collectionDescription name grp productNames)"

definition clean_item :: "RemoteItem \<Rightarrow> AiTechCardItem option" where
  \<comment> \<open>the filter \<open>typeof x?.quantity === 'number' && x.quantity > 0\<close>\<close>
  "clean_item x =
     (case ri_quantity x of
        None \<Rightarrow> None
      | Some q \<Rightarrow>
          if q > 0
          then Some \<lparr>ai_name = ri_name x, ai_article = ri_article x, ai_quantity = q,
                     ai_unit = ri_unit x\<rparr>
          else None)"

definition suggestTechCard ::
    "remote \<Rightarrow> ustring \<Rightarrow> ustring option \<Rightarrow> MaterialsCatalogItem list \<Rightarrow> AiTechCardItem list" where
  "suggestTechCard r productName brief materialsCatalog =
     (let remote = post r;
          items = (case data remote of
                     None \<Rightarrow> []
                   | Some b \<Rightarrow> (case rb_items b of None \<Rightarrow> [] | Some xs \<Rightarrow> xs));
          cleaned = List.map_filter clean_item items
      in if ok remote \<and> length cleaned \<noteq> 0 then cleaned
         else techCardSuggest productName brief materialsCatalog)"


section \<open>Materials page: CSV import\<close>

text \<open>
  \<open>parseCsvToMaterials\<close> and the merge of \<open>importCsv\<close>. Four things come from the platform
  and are parameters: \<open>lower\<close>, which is \<open>String.prototype.toLowerCase\<close>; \<open>Number\<close>, the
  conversion of the text of a price cell to a number; the source of fresh identifiers;
  and the clock. Nothing is assumed of them.

  The price of a record of this page is what \<open>Number\<close> made of a cell: a finite number,
  \<open>NaN\<close> for a cell that is no numeral, or an infinity. Zero and \<open>NaN\<close> are the falsy
  numbers.
\<close>

datatype jsnum = Num rat | NaN | PosInf | NegInf

definition falsy_num :: "jsnum \<Rightarrow> bool" where
  "falsy_num x \<longleftrightarrow> x = NaN \<or> x = Num 0"

definition or_jsnum :: "jsnum \<Rightarrow> jsnum \<Rightarrow> jsnum" where
  \<comment> \<open>\<open>x || d\<close> on numbers\<close>
  "or_jsnum x d = (if falsy_num x then d else x)"

record CatalogMaterial =
  cm_id :: ustring
  cm_name :: ustring
  cm_article :: ustring
  cm_unit :: ustring
  cm_price :: jsnum
  cm_created_at :: ustring
  cm_updated_at :: ustring

fun split_lines :: "ustring \<Rightarrow> ustring list" where
  \<comment> \<open>\<open>csv.split(/\r?\n/)\<close>\<close>
  "split_lines [] = [[]]"
| "split_lines [c] = (if c = 10 then [[], []] else [[c]])"
| "split_lines (c # d # cs) =
     (if c = 13 \<and> d = 10 then [] # split_lines cs
      else if c = 10 then [] # split_lines (d # cs)
      else (case split_lines (d # cs) of
              l # ls \<Rightarrow> (c # l) # ls
            | [] \<Rightarrow> [[c]]))"

fun split_commas :: "ustring \<Rightarrow> ustring list" where
  \<comment> \<open>\<open>row.split(',')\<close>\<close>
  "split_commas [] = [[]]"
| "split_commas (c # cs) =
     (if c = 44 then [] # split_commas cs
      else (case split_commas cs of
              l # ls \<Rightarrow> (c # l) # ls
            | [] \<Rightarrow> [[c]]))"

definition strip_quotes :: "ustring \<Rightarrow> ustring" where
  \<comment> \<open>\<open>c.replace(/^"|"$/g, '')\<close>: one quote off the front, then one off the end\<close>
  "strip_quotes c =
     (let c1 = (case c of q # r \<Rightarrow> if q = 34 then r else c | [] \<Rightarrow> [])
      in if c1 \<noteq> [] \<and> last c1 = 34 then butlast c1 else c1)"

fun unescape_quotes :: "ustring \<Rightarrow> ustring" where
  \<comment> \<open>\<open>c.replace(/""/g, '"')\<close>\<close>
  "unescape_quotes (a # b # cs) =
     (if a = 34 \<and> b = 34 then 34 # unescape_quotes cs else a # unescape_quotes (b # cs))"
| "unescape_quotes cs = cs"

definition row_cols :: "ustring \<Rightarrow> ustring list" where
  "row_cols row =
     map (\<lambda>c. trim (unescape_quotes (strip_quotes c)))
       (split_commas (filter (\<lambda>u. u \<noteq> 65279) row))"

definition col :: "ustring list \<Rightarrow> nat \<Rightarrow> ustring option" where
  \<comment> \<open>\<open>cols[k]\<close>: \<open>undefined\<close> beyond the end\<close>
  "col cols k = (if k < length cols then Some (cols ! k) else None)"

definition coerceMaterial ::
    "(ustring \<Rightarrow> jsnum) \<Rightarrow> ustring \<Rightarrow> ustring \<Rightarrow> ustring \<Rightarrow> ustring \<Rightarrow> ustring \<Rightarrow> ustring option
      \<Rightarrow> CatalogMaterial option" where
  \<comment> \<open>the object passed has no \<open>id\<close> and no dates: they are made up here\<close>
  "coerceMaterial Number new_id now x_name x_article x_unit x_price =
     (let name = trim x_name;
          article = trim x_article;
          unit = x_unit;
          price = (case x_price of None \<Rightarrow> Num 0 | Some s \<Rightarrow> Number s)
      in if name = [] then None
         else Some \<lparr>cm_id = new_id, cm_name = name, cm_article = article, cm_unit = unit,
                    cm_price = price, cm_created_at = now, cm_updated_at = now\<rparr>)"

fun parse_rows ::
    "(ustring \<Rightarrow> ustring) \<Rightarrow> (ustring \<Rightarrow> jsnum) \<Rightarrow> (nat \<Rightarrow> ustring) \<Rightarrow> ustring \<Rightarrow> nat
      \<Rightarrow> ustring list \<Rightarrow> CatalogMaterial list" where
  \<comment> \<open>the loop over the lines; \<open>i\<close> is the loop index\<close>
  "parse_rows lower Number fresh now i [] = []"
| "parse_rows lower Number fresh now i (row # rows) =
     (let cols = row_cols row in
      if length cols = 1 \<and> i = 0 \<and> str_includes (lower (cols ! 0)) (ascii ''name'')
      then parse_rows lower Number fresh now (Suc i) rows
      else
        (case coerceMaterial Number (fresh i) now
                (opt_str (col cols 0)) (opt_str (col cols 1))
                (case col cols 2 of None \<Rightarrow> u_sht | Some u \<Rightarrow> u)
                (col cols 3) of
           Some mat \<Rightarrow> mat # parse_rows lower Number fresh now (Suc i) rows
         | None \<Rightarrow> parse_rows lower Number fresh now (Suc i) rows))"

definition parseCsvToMaterials ::
    "(ustring \<Rightarrow> ustring) \<Rightarrow> (ustring \<Rightarrow> jsnum) \<Rightarrow> (nat \<Rightarrow> ustring) \<Rightarrow> ustring \<Rightarrow> ustring
      \<Rightarrow> CatalogMaterial list" where
  "parseCsvToMaterials lower Number fresh now csv =
     (let lines = filter (\<lambda>l. l \<noteq> []) (map trim (split_lines csv))
      in if length lines = 0 then [] else parse_rows lower Number fresh now 0 lines)"

definition article_key :: "(ustring \<Rightarrow> ustring) \<Rightarrow> CatalogMaterial \<Rightarrow> ustring" where
  \<comment> \<open>\<open>String(m.article || '').trim().toLowerCase()\<close>\<close>
  "article_key lower m = lower (trim (cm_article m))"

primrec find_last_index :: "('a \<Rightarrow> bool) \<Rightarrow> 'a list \<Rightarrow> nat option" where
  \<comment> \<open>a \<open>Map\<close> built from pairs keeps, for a key given twice, the later value\<close>
  "find_last_index P [] = None"
| "find_last_index P (x # xs) =
     (case find_last_index P xs of
        Some i \<Rightarrow> Some (Suc i)
      | None \<Rightarrow> if P x then Some 0 else None)"

text \<open>
  The merge mutates the catalog's own records, which \<open>merged\<close> shares, and puts new records
  in front. The state of the loop is the list of new records (latest first), the catalog
  with its updates, and the two counters.
\<close>

record import_state =
  st_new :: "CatalogMaterial list"
  st_items :: "CatalogMaterial list"
  st_added :: nat
  st_updated :: nat

definition update_existing ::
    "ustring \<Rightarrow> CatalogMaterial \<Rightarrow> CatalogMaterial \<Rightarrow> CatalogMaterial" where
  "update_existing now existing it =
     existing\<lparr>cm_name := or_str (cm_name it) (cm_name existing),
              cm_unit := or_str (cm_unit it) (cm_unit existing),
              cm_price := or_jsnum (cm_price it) (cm_price existing),
              cm_updated_at := now\<rparr>"

definition import_step ::
    "(ustring \<Rightarrow> ustring) \<Rightarrow> CatalogMaterial list \<Rightarrow> (nat \<Rightarrow> ustring) \<Rightarrow> (nat \<Rightarrow> ustring)
      \<Rightarrow> import_state \<Rightarrow> CatalogMaterial \<Rightarrow> import_state" where
  \<comment> \<open>\<open>stored\<close> is the page's \<open>items\<close> before the import: \<open>mapByArticle\<close> is built from it once\<close>
  "import_step lower stored fresh clock st it =
     (let key = article_key lower it;
          existing = (if key \<noteq> []
                      then find_last_index (\<lambda>m. article_key lower m = key) stored else None);
          now = clock (st_added st + st_updated st)
      in case existing of
           Some i \<Rightarrow>
             st\<lparr>st_items := (st_items st)[i := update_existing now (st_items st ! i) it],
                st_updated := st_updated st + 1\<rparr>
         | None \<Rightarrow>
             st\<lparr>st_new :=
                  it\<lparr>cm_id := fresh (st_added st), cm_created_at := now, cm_updated_at := now\<rparr>
                  # st_new st,
                st_added := st_added st + 1\<rparr>)"

definition merge_imported ::
    "(ustring \<Rightarrow> ustring) \<Rightarrow> CatalogMaterial list \<Rightarrow> (nat \<Rightarrow> ustring) \<Rightarrow> (nat \<Rightarrow> ustring)
      \<Rightarrow> CatalogMaterial list \<Rightarrow> import_state" where
  "merge_imported lower stored fresh clock imported =
     foldl (import_step lower stored fresh clock)
       \<lparr>st_new = [], st_items = stored, st_added = 0, st_updated = 0\<rparr> imported"

definition importCsv ::
    "(ustring \<Rightarrow> ustring) \<Rightarrow> (ustring \<Rightarrow> jsnum) \<Rightarrow> (nat \<Rightarrow> ustring) \<Rightarrow> (nat \<Rightarrow> ustring)
      \<Rightarrow> (nat \<Rightarrow> ustring) \<Rightarrow> CatalogMaterial list \<Rightarrow> ustring option \<Rightarrow> CatalogMaterial list" where
  \<comment> \<open>the catalog after the import; a file that cannot be read, or holds no valid row,
      leaves it as it is\<close>
  "importCsv lower Number parse_ids fresh clock stored file_text =
     (case file_text of
        None \<Rightarrow> stored
      | Some text \<Rightarrow>
          let imported = parseCsvToMaterials lower Number parse_ids (clock 0) text
          in if length imported = 0 then stored
             else let st = merge_imported lower stored fresh clock imported
                  in st_new st @ st_items st)"


text \<open>
  What the merge keeps true of its state, for a key \<open>k\<close>: the catalog's records keep their
  articles and ids, and no new record has the key \<open>k\<close>.
\<close>

definition import_inv ::
    "(ustring \<Rightarrow> ustring) \<Rightarrow> CatalogMaterial list \<Rightarrow> ustring \<Rightarrow> import_state \<Rightarrow> bool" where
  "import_inv lower stored k st \<longleftrightarrow>
     map (article_key lower) (st_items st) = map (article_key lower) stored
     \<and> map cm_id (st_items st) = map cm_id stored
     \<and> list_all (\<lambda>a. article_key lower a \<noteq> k) (st_new st)"


section \<open>Example data\<close>

text \<open>Concrete inputs at which the properties below are evaluated.\<close>

definition ex_materials :: "Material list" where
  "ex_materials =
     [\<lparr>mat_id = ascii ''m1'', mat_name = ascii ''LDSP 18'', mat_article = ascii ''LDSP-18-W'',
       mat_unit = ascii ''m2'', mat_price = 85,
       mat_created_at = ascii ''2024-01-01'', mat_updated_at = ascii ''2024-01-01''\<rparr>]"

definition ex_type :: PriceType where
  "ex_type = \<lparr>type_id = ascii ''pt1'', type_name = ascii ''Tumba'', markup = 10, workCost = 1000\<rparr>"

definition ex_finish :: PriceType where
  "ex_finish = \<lparr>type_id = ascii ''ft1'', type_name = ascii ''Painted'', markup = 50, workCost = 0\<rparr>"

definition ex_settings :: PriceSettings where
  "ex_settings = \<lparr>productTypes = [ex_type], finishTypes = [ex_finish]\<rparr>"

definition ex_product :: "tech_card_raw \<Rightarrow> Product" where
  "ex_product tc =
     \<lparr>prod_id = ascii ''p1'', prod_name = ascii ''Berlin 60'', prod_article = ascii ''BL-V60'',
      tech_card = tc, collection_id = None,
      product_type_id = Some (ascii ''pt1''), finish_type_id = Some (ascii ''ft1'')\<rparr>"

definition ex_line :: "rat \<Rightarrow> TechCardItem" where
  "ex_line q = \<lparr>materialId = ascii ''m1'', quantity = q\<rparr>"

definition ex_dangling :: TechCardItem where
  "ex_dangling = \<lparr>materialId = ascii ''gone'', quantity = 3\<rparr>"


definition ex_col :: "ustring \<Rightarrow> ustring list \<Rightarrow> Collection" where
  "ex_col i ord =
     \<lparr>col_id = i, col_name = ascii ''Berlin'', col_description = None, col_group = None,
      is_archived = False, pinned = False, product_order = ord, cover_url = None,
      col_created_at = ascii ''2024-01-01'', col_updated_at = ascii ''2024-01-01''\<rparr>"

definition ex_page :: CollectionsPage where
  "ex_page =
     \<lparr>collections = [ex_col (ascii ''c1'') [ascii ''p1'', ascii ''p2''],
                     ex_col (ascii ''c2'') [ascii ''p1'']],
      audit = []\<rparr>"

definition ex_editor :: DnDEditor where
  "ex_editor =
     \<lparr>order = [ascii ''a'', ascii ''b'', ascii ''c''], draggingId = Some (ascii ''c''),
      overId = Some (ascii ''a'')\<rparr>"


definition ex_item :: "string \<Rightarrow> rat \<Rightarrow> SeriesItem" where
  "ex_item a p =
     \<lparr>si_article = ascii a, si_name = ascii ''Item'', si_type = Some (ascii ''TB''),
      si_dimensions = None, si_material = None, si_color = None, price = p\<rparr>"

definition ex_series :: "ProductSeries list" where
  "ex_series =
     [\<lparr>series = ascii ''BERLIN'', seriesDesc = Some (ascii ''Minimal''),
        items = [ex_item ''BL-V60'' 18500, ex_item ''BL-MC60'' 14800]\<rparr>,
      \<lparr>series = ascii ''VIENNA'', seriesDesc = None,
        items = [ex_item ''VN-V75'' 31000, ex_item ''VN-M90'' 19200]\<rparr>]"

definition ex_input :: GenerateInput where
  "ex_input =
     \<lparr>logoUrl = None,
      documentData =
        \<lparr>title = ascii ''PRICE LIST'', includeCover = Some True, brandColor = None,
         showGroupTotals = True, showGrandTotal = True, footerNote = None\<rparr>,
      products = ex_series\<rparr>"

definition ex_env :: "bool \<Rightarrow> bool \<Rightarrow> bool \<Rightarrow> PdfEnv" where
  \<comment> \<open>a first build in a page where both scripts load\<close>
  "ex_env engine plugin font_ok =
     \<lparr>umd_ready = False, loadingPromise = None, jspdf_script_loads = True,
      autotable_script_loads = True, ctor_available = engine, autoTable_attached = plugin,
      font_fetch_ok = font_ok, logo_fetch_ok = True\<rparr>"


definition ex_fraction_series :: "ProductSeries list" where
  \<comment> \<open>prices \<open>0.1\<close> in one series, \<open>0.2\<close> and \<open>0.3\<close> in the next\<close>
  "ex_fraction_series =
     [\<lparr>series = ascii ''A'', seriesDesc = None, items = [ex_item ''A1'' (round_double 0.1)]\<rparr>,
      \<lparr>series = ascii ''B'', seriesDesc = None,
        items = [ex_item ''B1'' (round_double 0.2), ex_item ''B2'' (round_double 0.3)]\<rparr>]"

definition ex_row :: "string \<Rightarrow> string \<Rightarrow> rat \<Rightarrow> ComputedRow" where
  "ex_row i ty p =
     \<lparr>row_id = ascii i, row_name = ascii ''Row'', row_article = ascii i, productType = ascii ty,
      finishType = [], basePrice = p, finalPrice = p, collectionId = None\<rparr>"

definition ex_rows :: "ComputedRow list" where
  "ex_rows = [ex_row ''r1'' ''Tumba'' 100, ex_row ''r2'' ''Penal'' 250, ex_row ''r3'' ''Tumba'' 40,
              ex_row ''r4'' [] 10]"

definition ex_fraction_rows :: "ComputedRow list" where
  "ex_fraction_rows =
     [ex_row ''r1'' ''Tumba'' (round_double 0.1), ex_row ''r2'' ''Penal'' (round_double 0.2),
      ex_row ''r3'' ''Penal'' (round_double 0.3)]"


definition ex_catalog :: "MaterialsCatalogItem list" where
  "ex_catalog =
     [\<lparr>mc_name = ascii ''Edge PVC'', mc_article = Some (ascii ''edge-2-pvc''),
       mc_unit = Some (ascii ''m''), mc_price = Some 12\<rparr>]"


text \<open>
  The examples of the import are ASCII text, on which \<open>toLowerCase\<close> of the AI section is
  the platform's function.
\<close>

definition ex_number :: "ustring \<Rightarrow> jsnum" where
  \<comment> \<open>the number conversion on the price cells of the examples\<close>
  "ex_number s =
     (if s = ascii ''10'' then Num 10 else if s = ascii ''20'' then Num 20
      else if s = ascii ''0'' \<or> s = [] then Num 0 else NaN)"

definition ex_ids :: "nat \<Rightarrow> ustring" where
  "ex_ids n = ascii ''id'' @ digit_string n"

definition ex_clock :: "nat \<Rightarrow> ustring" where
  "ex_clock n = ascii ''2024-05-0'' @ digit_string (Suc n)"

definition ex_csv_new :: ustring where
  \<comment> \<open>two rows, articles \<open>X1\<close> and \<open>x1\<close>\<close>
  "ex_csv_new = ascii ''Board,X1,m,10'' @ [10] @ ascii ''Panel,x1,m,20''"

definition ex_csv_blank :: ustring where
  \<comment> \<open>the later row has an empty unit and the price \<open>0\<close>\<close>
  "ex_csv_blank = ascii ''Board,X1,m,10'' @ [10] @ ascii ''Panel,x1,,0''"

definition ex_csv_nan :: ustring where
  \<comment> \<open>the later row has a price cell that is no numeral\<close>
  "ex_csv_nan = ascii ''Board,X1,m,10'' @ [10] @ ascii ''Panel,x1,m,n/a''"

definition ex_existing :: CatalogMaterial where
  "ex_existing =
     \<lparr>cm_id = ascii ''m7'', cm_name = ascii ''Old'', cm_article = ascii ''X1'',
      cm_unit = ascii ''kg'', cm_price = Num 5,
      cm_created_at = ascii ''2024-01-01'', cm_updated_at = ascii ''2024-01-01''\<rparr>"

definition ex_parsed :: "nat \<Rightarrow> string \<Rightarrow> string \<Rightarrow> string \<Rightarrow> jsnum \<Rightarrow> CatalogMaterial" where
  \<comment> \<open>the record parsed from row \<open>n\<close> of an example file\<close>
  "ex_parsed n nm art un pr =
     \<lparr>cm_id = ex_ids n, cm_name = ascii nm, cm_article = ascii art, cm_unit = ascii un,
      cm_price = pr, cm_created_at = ex_clock 0, cm_updated_at = ex_clock 0\<rparr>"


section \<open>Properties of the rounding\<close>

lemma round_half_even_of_int [simp]: "round_half_even (of_int m) = m"
  by (simp add: round_half_even_def)

lemma round_double_2_53: "round_double (2 ^ 53) = 2 ^ 53"
  by code_simp

text \<open>Every whole number up to \<open>2 ^ 53\<close> is a double.\<close>

lemma round_double_whole:
  assumes "n \<le> 2 ^ 53"
  shows "round_double (of_nat n) = of_nat n"
proof (cases "n = 0")
  case True
  then show ?thesis by (simp add: round_double_def)
next
  case False
  then have pos: "0 < int n" by simp
  define e where "e = bitlen (int n) - 1"
  have b: "2 ^ nat e \<le> int n" "int n < 2 ^ nat (bitlen (int n))"
    using bitlen_bounds [OF pos] by (simp_all add: e_def)
  have e0: "0 \<le> e"
    using pos by (simp add: e_def bitlen_alt_def)
  have "(2::int) ^ nat e \<le> 2 ^ 53"
    using b(1) assms by (metis (mono_tags) of_nat_le_iff of_nat_numeral of_nat_power order_trans)
  then have "nat e \<le> 53"
    by (rule power_le_imp_le_exp [of "2::int", rotated]) simp
  then have e53: "e \<le> 53" by simp
  have x1: "(1::rat) \<le> of_nat n" using False by simp
  have ex: "exponent_of (of_nat n) = e"
    using x1 by (simp add: exponent_of_def e_def)
  have xn: "(of_nat n :: rat) \<noteq> 0" "\<bar>of_nat n :: rat\<bar> = of_nat n" "sgn (of_nat n :: rat) = 1"
    using False by simp_all
  have m: "max e (- 1022) = e" using e0 by simp
  show ?thesis
  proof (cases "e \<le> 52")
    case True
    define k where "k = nat (52 - e)"
    have u: "pow2 (e - 52) = 1 / 2 ^ k"
    proof (cases "e = 52")
      case True
      then show ?thesis by (simp add: pow2_def k_def)
    next
      case False
      with True have "e - 52 < 0" by simp
      then show ?thesis by (simp add: pow2_def k_def)
    qed
    have q: "(of_nat n :: rat) / (1 / 2 ^ k) = of_int (int n * 2 ^ k)"
      by simp
    show ?thesis
      unfolding round_double_def Let_def ex xn m u q round_half_even_of_int
      using xn(1) by simp
  next
    case False
    with e53 have e: "e = 53" by simp
    with b(1) assms have "int n = 2 ^ 53"
      by (metis (mono_tags) antisym of_nat_le_iff of_nat_numeral of_nat_power nat_numeral)
    then have n: "(of_nat n :: rat) = 2 ^ 53"
      by (metis of_int_numeral of_int_of_nat_eq of_int_power)
    show ?thesis
      unfolding n by (rule round_double_2_53)
  qed
qed


section \<open>Properties of the price calculation\<close>

lemma ascii_eq_iff [simp]: "ascii a = ascii b \<longleftrightarrow> a = b"
  by (simp add: ascii_def inj_on_def)

lemma ascii_Nil_iff [simp]: "ascii a = [] \<longleftrightarrow> a = []" "[] = ascii a \<longleftrightarrow> a = []"
  by (auto simp: ascii_def)

lemma or_num_zero [simp]: "or_num x 0 = x"
  by (simp add: or_num_def)

lemma foldl_add_start: "foldl (\<lambda>s x. s + f x) (a::rat) xs = a + foldl (\<lambda>s x. s + f x) 0 xs"
proof (induction xs arbitrary: a)
  case Nil
  show ?case by simp
next
  case (Cons x xs)
  have "foldl (\<lambda>s x. s + f x) (a + f x) xs = (a + f x) + foldl (\<lambda>s x. s + f x) 0 xs"
    by (rule Cons.IH)
  moreover have "foldl (\<lambda>s x. s + f x) (f x) xs = f x + foldl (\<lambda>s x. s + f x) 0 xs"
    by (rule Cons.IH)
  ultimately show ?case by simp
qed

lemma foldl_add_sum_list: "foldl (\<lambda>s x. s + f x) (0::rat) xs = sum_list (map f xs)"
proof (induction xs)
  case Nil
  show ?case by simp
next
  case (Cons x xs)
  then show ?case using foldl_add_start [of f "f x" xs] by simp
qed

lemma materialCost_of_sum: "materialCost_of ms arr = sum_list (map (line_cost ms) arr)"
  by (simp add: materialCost_of_def foldl_add_sum_list)

lemma find_None_notin: "x \<notin> f ` set xs \<Longrightarrow> find (\<lambda>m. f m = x) xs = None"
  by (induction xs) auto

lemma line_cost_dangling:
  "materialId it \<notin> mat_id ` set materials \<Longrightarrow> line_cost materials it = 0"
  by (simp add: line_cost_def find_None_notin)



lemmas ex_defs =
  ex_materials_def ex_type_def ex_finish_def ex_settings_def ex_product_def ex_line_def
  ex_dangling_def

lemma ex_find_type [simp]:
  "find_type (productTypes ex_settings) (product_type_id (ex_product tc)) = Some ex_type"
  "find_type (finishTypes ex_settings) (finish_type_id (ex_product tc)) = Some ex_finish"
  "find_type (productTypes ex_settings) (Some (ascii ''pt1'')) = Some ex_type"
  "find_type (finishTypes ex_settings) (Some (ascii ''ft1'')) = Some ex_finish"
  by (simp_all add: find_type_def ex_defs)

lemma ex_fields [simp]:
  "tech_card (ex_product tc) = tc"
  "product_type_id (ex_product tc) = Some (ascii ''pt1'')"
  "finish_type_id (ex_product tc) = Some (ascii ''ft1'')"
  "markup ex_type = 10" "workCost ex_type = 1000" "markup ex_finish = 50"
  by (simp_all add: ex_defs)

lemma ex_materialCost [simp]:
  "materialCost_of ex_materials [ex_line q] = q * 85"
  by (simp add: materialCost_of_def line_cost_def ex_defs)


lemma line_cost_in_exact: "line_cost_in (\<lambda>x. x) ms it = line_cost ms it"
  by (simp add: line_cost_in_def line_cost_def)

lemma materialCost_in_exact: "materialCost_in (\<lambda>x. x) ms arr = materialCost_of ms arr"
  by (simp add: materialCost_in_def materialCost_of_def line_cost_in_exact)

lemma calculateProductPrice_in_exact:
  "calculateProductPrice_in (\<lambda>x. x) p ms st = calculateProductPrice p ms st"
  by (simp add: calculateProductPrice_in_def calculateProductPrice_def Let_def
      with_markup_in_def priceWithType_def materialCost_in_exact)

lemma prices_in_nonempty:
  assumes "techCardArr (tech_card p) \<noteq> []"
  shows "p_basePrice (calculateProductPrice_in rnd p ms st) =
           rnd (materialCost_in rnd ms (techCardArr (tech_card p))
                + workCost_of (find_type (productTypes st) (product_type_id p)))"
    and "p_finalPrice (calculateProductPrice_in rnd p ms st) =
           with_markup_in rnd
             (with_markup_in rnd
                (rnd (materialCost_in rnd ms (techCardArr (tech_card p))
                      + workCost_of (find_type (productTypes st) (product_type_id p))))
                (find_type (productTypes st) (product_type_id p)))
             (find_type (finishTypes st) (finish_type_id p))"
  using assms by (simp_all add: calculateProductPrice_in_def Let_def)

lemma exact_markup_chain:
  assumes "materialCost_of materials (techCardArr (tech_card product)) = 850"
    and "find_type (productTypes st) (product_type_id product) = Some pt"
    and "workCost pt = 1000" and "markup pt = 10"
    and "find_type (finishTypes st) (finish_type_id product) = Some ft"
    and "markup ft = 50"
  shows "p_basePrice (calculateProductPrice product materials st) = 1850
       \<and> priceWithType (p_basePrice (calculateProductPrice product materials st)) (Some pt) = 2035
       \<and> p_finalPrice (calculateProductPrice product materials st) = 3052.5"
proof -
  have ne: "techCardArr (tech_card product) \<noteq> []"
    using assms(1) by (auto simp: materialCost_of_def)
  show ?thesis
    using ne assms
    by (simp add: calculateProductPrice_def Let_def priceWithType_def markup_of_def workCost_of_def)
qed

lemma double_cost_steps:
  "round_double (10 * 85) = 850"
  "round_double (0 + 850) = 850"
  "round_double (850 + 1000) = 1850"
  "round_double 850 = 850"
  "round_double 1850 = 1850"
  by code_simp+

lemma double_markup_steps:
  "round_double (1850 * round_double (1 + round_double (10 / 100))) = 2035 + 1 / 2 ^ 42"
  "round_double ((2035 + 1 / 2 ^ 42) * round_double (1 + round_double (50 / 100)))
     = 3052.5 + 1 / 2 ^ 41"
  by code_simp+

lemma double_printed:
  \<comment> \<open>the decimal numerals that denote these two doubles\<close>
  "round_double 2035.0000000000002 = 2035 + 1 / 2 ^ 42"
  "round_double 3052.5000000000005 = 3052.5 + 1 / 2 ^ 41"
  by code_simp+

lemma ex_materialCost_in:
  "materialCost_in round_double ex_materials [ex_line 10] = 850"
proof -
  have "find (\<lambda>m. mat_id m = materialId (ex_line 10)) ex_materials = Some (hd ex_materials)"
    by (simp add: ex_defs)
  then have "line_cost_in round_double ex_materials (ex_line 10) = round_double (10 * 85)"
    by (simp add: line_cost_in_def ex_defs)
  then show ?thesis
    by (simp only: materialCost_in_def foldl.simps double_cost_steps)
qed

lemma with_markup_in_steps:
  assumes "markup pt = 10" and "markup ft = 50"
  shows "with_markup_in round_double 1850 (Some pt) = 2035 + 1 / 2 ^ 42"
    and "with_markup_in round_double (2035 + 1 / 2 ^ 42) (Some ft) = 3052.5 + 1 / 2 ^ 41"
proof -
  have "markup_of (Some pt) = 10" "markup_of (Some ft) = 50"
    using assms by (simp_all add: markup_of_def or_num_def)
  then show "with_markup_in round_double 1850 (Some pt) = 2035 + 1 / 2 ^ 42"
    and "with_markup_in round_double (2035 + 1 / 2 ^ 42) (Some ft) = 3052.5 + 1 / 2 ^ 41"
    by (simp_all only: with_markup_in_def double_markup_steps)
qed


text \<open>
  \<^bold>\<open>C1\<close> (markup chaining). The claim is that for material cost 850, a product-type rule
  with work cost 1000 and markup 10 and a finish-type rule with markup 50, the calculator
  returns base price 1850 and final price 3052.5, with 2035 after the type markup. In
  exact arithmetic this is so (\<open>exact_markup_chain\<close>). The code computes in double
  precision: \<open>10 / 100\<close> is not a double, neither is \<open>1 + 10 / 100\<close>, and the product with
  1850 rounds to the double next above 2035. For the tech card of one line, 10 units of a
  material priced 85, the returned final price is not 3052.5.
\<close>

theorem markup_chaining_counterexample:
  "materialCost_in round_double ex_materials
      (techCardArr (tech_card (ex_product (TcArray [ex_line 10])))) = 850
   \<and> find_type (productTypes ex_settings) (product_type_id (ex_product (TcArray [ex_line 10])))
       = Some ex_type
   \<and> workCost ex_type = 1000 \<and> markup ex_type = 10
   \<and> find_type (finishTypes ex_settings) (finish_type_id (ex_product (TcArray [ex_line 10])))
       = Some ex_finish
   \<and> markup ex_finish = 50
   \<and> p_basePrice (calculateProductPrice_in round_double
         (ex_product (TcArray [ex_line 10])) ex_materials ex_settings) = 1850
   \<and> with_markup_in round_double 1850 (Some ex_type) \<noteq> 2035
   \<and> p_finalPrice (calculateProductPrice_in round_double
         (ex_product (TcArray [ex_line 10])) ex_materials ex_settings) \<noteq> 3052.5"
proof -
  have m: "materialCost_in round_double ex_materials
      (techCardArr (tech_card (ex_product (TcArray [ex_line 10])))) = 850"
    by (simp add: ex_materialCost_in)
  have w: "with_markup_in round_double 1850 (Some ex_type) = 2035 + 1 / 2 ^ 42"
    "with_markup_in round_double (2035 + 1 / 2 ^ 42) (Some ex_finish) = 3052.5 + 1 / 2 ^ 41"
    using ex_fields(4) ex_fields(6) by (rule with_markup_in_steps)+
  have ne: "techCardArr (tech_card (ex_product (TcArray [ex_line 10]))) \<noteq> []"
    by simp
  have wc: "workCost_of (Some ex_type) = 1000"
    by (simp add: workCost_of_def)
  have b: "p_basePrice (calculateProductPrice_in round_double
         (ex_product (TcArray [ex_line 10])) ex_materials ex_settings) = 1850"
    by (simp only: prices_in_nonempty [OF ne] m ex_find_type wc double_cost_steps)
  have f: "p_finalPrice (calculateProductPrice_in round_double
         (ex_product (TcArray [ex_line 10])) ex_materials ex_settings) = 3052.5 + 1 / 2 ^ 41"
    by (simp only: prices_in_nonempty [OF ne] m ex_find_type wc double_cost_steps w)
  have "with_markup_in round_double 1850 (Some ex_type) \<noteq> 2035"
    unfolding w by simp
  moreover have "p_finalPrice (calculateProductPrice_in round_double
         (ex_product (TcArray [ex_line 10])) ex_materials ex_settings) \<noteq> 3052.5"
    unfolding f by simp
  moreover note m b ex_find_type(1) ex_find_type(2) ex_fields(4) ex_fields(5) ex_fields(6)
  ultimately show ?thesis by blast
qed

text \<open>
  \<^bold>\<open>C1\<close>, as the code has it. Under the hypotheses of the claim the calculator returns
  base price 1850; the price after the type markup is \<open>2035 + 2 ^ (- 42)\<close>, the double
  printed as \<open>2035.0000000000002\<close>, and the final price is \<open>3052.5 + 2 ^ (- 41)\<close>, the
  double printed as \<open>3052.5000000000005\<close>. The two markups are applied one after the
  other, each step rounded.
\<close>

theorem markup_chaining:
  assumes "materialCost_in round_double materials (techCardArr (tech_card product)) = 850"
    and "find_type (productTypes st) (product_type_id product) = Some pt"
    and "workCost pt = 1000" and "markup pt = 10"
    and "find_type (finishTypes st) (finish_type_id product) = Some ft"
    and "markup ft = 50"
  shows "p_basePrice (calculateProductPrice_in round_double product materials st) = 1850
       \<and> with_markup_in round_double
           (p_basePrice (calculateProductPrice_in round_double product materials st)) (Some pt)
           = round_double 2035.0000000000002
       \<and> p_finalPrice (calculateProductPrice_in round_double product materials st)
           = round_double 3052.5000000000005
       \<and> round_double 2035.0000000000002 = 2035 + 1 / 2 ^ 42
       \<and> round_double 3052.5000000000005 = 3052.5 + 1 / 2 ^ 41"
proof -
  have ne: "techCardArr (tech_card product) \<noteq> []"
    using assms(1) by (auto simp: materialCost_in_def)
  have w: "with_markup_in round_double 1850 (Some pt) = 2035 + 1 / 2 ^ 42"
    "with_markup_in round_double (2035 + 1 / 2 ^ 42) (Some ft) = 3052.5 + 1 / 2 ^ 41"
    using assms(4,6) by (rule with_markup_in_steps)+
  have wc: "workCost_of (Some pt) = 1000"
    using assms(3) by (simp add: workCost_of_def)
  have b: "p_basePrice (calculateProductPrice_in round_double product materials st) = 1850"
    by (simp only: prices_in_nonempty [OF ne] assms(1,2) wc double_cost_steps)
  have f: "p_finalPrice (calculateProductPrice_in round_double product materials st)
      = 3052.5 + 1 / 2 ^ 41"
    by (simp only: prices_in_nonempty [OF ne] assms(1,2,5) wc double_cost_steps w)
  show ?thesis
    by (simp only: b f w double_printed simp_thms)
qed

theorem markup_chaining_witness:
  "materialCost_in round_double ex_materials
      (techCardArr (tech_card (ex_product (TcArray [ex_line 10])))) = 850
   \<and> p_basePrice (calculateProductPrice_in round_double
         (ex_product (TcArray [ex_line 10])) ex_materials ex_settings) = 1850
   \<and> with_markup_in round_double
         (p_basePrice (calculateProductPrice_in round_double
            (ex_product (TcArray [ex_line 10])) ex_materials ex_settings)) (Some ex_type)
       = round_double 2035.0000000000002
   \<and> p_finalPrice (calculateProductPrice_in round_double
         (ex_product (TcArray [ex_line 10])) ex_materials ex_settings)
       = round_double 3052.5000000000005"
proof -
  have h: "materialCost_in round_double ex_materials
      (techCardArr (tech_card (ex_product (TcArray [ex_line 10])))) = 850"
    by (simp add: ex_materialCost_in)
  show ?thesis
    using h markup_chaining [OF h ex_find_type(1) ex_fields(5) ex_fields(4) ex_find_type(2) ex_fields(6)]
    by blast
qed





text \<open>
  \<^bold>\<open>C4\<close> (empty tech card). When the normalised tech card is empty, the calculator returns
  zero for the material cost, the work cost, the base price, the final price and the
  effective markup, whatever rules the settings hold: the work cost of a matched
  product-type rule is not charged.
\<close>

theorem empty_bom_all_zero:
  assumes "techCardArr (tech_card p) = []"
  shows "calculateProductPrice p materials st =
    \<lparr>p_materialCost = 0, p_workCost = 0, p_basePrice = 0, p_finalPrice = 0, p_markup = 0\<rparr>"
  using assms by (simp add: calculateProductPrice_def)

theorem empty_bom_all_zero_witness:
  "techCardArr (tech_card (ex_product (TcArray []))) = []
   \<and> workCost_of (find_type (productTypes ex_settings) (product_type_id (ex_product (TcArray [])))) = 1000
   \<and> calculateProductPrice (ex_product (TcArray [])) ex_materials ex_settings =
       \<lparr>p_materialCost = 0, p_workCost = 0, p_basePrice = 0, p_finalPrice = 0, p_markup = 0\<rparr>"
proof -
  have h: "techCardArr (tech_card (ex_product (TcArray []))) = []"
    by simp
  have w: "workCost_of (find_type (productTypes ex_settings) (product_type_id (ex_product (TcArray [])))) = 1000"
    by (simp add: workCost_of_def)
  show ?thesis
    using h w empty_bom_all_zero [OF h, of ex_materials ex_settings] by blast
qed


text \<open>
  \<^bold>\<open>C5\<close> (dangling reference). A tech-card line whose \<open>materialId\<close> is the id of no
  material costs 0; the material cost is that of the remaining lines; and the whole result
  equals the result for the same product with that line's quantity set to 0. The
  calculator is a total function: it has no failing branch.
\<close>

theorem dangling_reference_zero:
  assumes "materialId it \<notin> mat_id ` set materials"
    and "techCardArr (tech_card p) = xs @ it # ys"
    and "techCardArr (tech_card p') = xs @ it\<lparr>quantity := 0\<rparr> # ys"
    and "product_type_id p' = product_type_id p" and "finish_type_id p' = finish_type_id p"
  shows "line_cost materials it = 0
       \<and> p_materialCost (calculateProductPrice p materials st) = materialCost_of materials (xs @ ys)
       \<and> calculateProductPrice p materials st = calculateProductPrice p' materials st"
proof -
  have z: "line_cost materials it = 0"
    using assms(1) by (rule line_cost_dangling)
  have z': "line_cost materials (it\<lparr>quantity := 0\<rparr>) = 0"
    by (simp add: line_cost_def)
  have a: "materialCost_of materials (xs @ it # ys) = materialCost_of materials (xs @ ys)"
    using z by (simp add: materialCost_of_sum)
  have b: "materialCost_of materials (xs @ it\<lparr>quantity := 0\<rparr> # ys) = materialCost_of materials (xs @ ys)"
    using z' by (simp add: materialCost_of_sum)
  show ?thesis
    using z a b assms(2-5) by (simp add: calculateProductPrice_def Let_def)
qed

theorem dangling_reference_zero_witness:
  "materialId ex_dangling \<notin> mat_id ` set ex_materials
   \<and> line_cost ex_materials ex_dangling = 0
   \<and> p_materialCost (calculateProductPrice (ex_product (TcArray [ex_line 10, ex_dangling])) ex_materials ex_settings)
       = 850
   \<and> calculateProductPrice (ex_product (TcArray [ex_line 10, ex_dangling])) ex_materials ex_settings
       = calculateProductPrice (ex_product (TcArray [ex_line 10, ex_dangling\<lparr>quantity := 0\<rparr>])) ex_materials ex_settings"
proof -
  have h1: "materialId ex_dangling \<notin> mat_id ` set ex_materials"
    by (simp add: ex_defs)
  have h2: "techCardArr (tech_card (ex_product (TcArray [ex_line 10, ex_dangling]))) = [ex_line 10] @ ex_dangling # []"
    by simp
  have h3: "techCardArr (tech_card (ex_product (TcArray [ex_line 10, ex_dangling\<lparr>quantity := 0\<rparr>])))
              = [ex_line 10] @ ex_dangling\<lparr>quantity := 0\<rparr> # []"
    by simp
  have h4: "product_type_id (ex_product (TcArray [ex_line 10, ex_dangling\<lparr>quantity := 0\<rparr>]))
              = product_type_id (ex_product (TcArray [ex_line 10, ex_dangling]))"
    by simp
  have h5: "finish_type_id (ex_product (TcArray [ex_line 10, ex_dangling\<lparr>quantity := 0\<rparr>]))
              = finish_type_id (ex_product (TcArray [ex_line 10, ex_dangling]))"
    by simp
  have v: "materialCost_of ex_materials ([ex_line 10] @ []) = 850"
    by simp
  note th = dangling_reference_zero [OF h1 h2 h3 h4 h5, of ex_settings]
  from th have a: "line_cost ex_materials ex_dangling = 0"
    by (rule conjunct1)
  from th have "p_materialCost (calculateProductPrice (ex_product (TcArray [ex_line 10, ex_dangling]))
      ex_materials ex_settings) = materialCost_of ex_materials ([ex_line 10] @ [])"
    by blast
  then have b: "p_materialCost (calculateProductPrice (ex_product (TcArray [ex_line 10, ex_dangling]))
      ex_materials ex_settings) = 850"
    using v by (rule trans)
  from th have c: "calculateProductPrice (ex_product (TcArray [ex_line 10, ex_dangling])) ex_materials ex_settings
       = calculateProductPrice (ex_product (TcArray [ex_line 10, ex_dangling\<lparr>quantity := 0\<rparr>])) ex_materials ex_settings"
    by blast
  show ?thesis
    using h1 a b c by blast
qed


section \<open>Properties of the collections page\<close>

lemma mset_insertAt: "mset (insertAt arr idx v) = add_mset v (mset arr)"
proof -
  have "mset (take k arr @ v # drop k arr) = add_mset v (mset arr)" for k
  proof -
    have "mset (take k arr @ v # drop k arr) = add_mset v (mset (take k arr @ drop k arr))"
      by (simp del: append_take_drop_id)
    then show ?thesis by simp
  qed
  then show ?thesis by (simp add: insertAt_def Let_def)
qed

lemma mset_filter_neq:
  assumes "distinct xs" and "d \<in> set xs"
  shows "add_mset d (mset (filter (\<lambda>i. i \<noteq> d) xs)) = mset xs"
  using assms
proof (induction xs)
  case Nil
  then show ?case by simp
next
  case (Cons x xs)
  show ?case
  proof (cases "x = d")
    case True
    with Cons.prems have "d \<notin> set xs" by simp
    then have "filter (\<lambda>i. i \<noteq> d) xs = xs" by (auto simp: filter_id_conv)
    with True show ?thesis by simp
  next
    case False
    with Cons show ?thesis by simp
  qed
qed

lemma filter_mset_neq:
  "distinct xs \<Longrightarrow> d \<in> set xs \<Longrightarrow> add_mset d {#x \<in># mset xs. x \<noteq> d#} = mset xs"
  using mset_filter_neq [of xs d] by simp

lemma distinct_via_mset: "mset ys = mset xs \<Longrightarrow> distinct xs \<Longrightarrow> distinct ys"
  by (metis mset_eq_imp_distinct_iff)


text \<open>
  \<^bold>\<open>C9\<close> (order preservation). When the order being edited has no duplicate and the
  dragged id is in it, dropping it over any item, or at the end of the list, leaves a
  permutation of the order: every id occurs exactly once, as before.
\<close>

theorem drop_is_permutation:
  assumes "distinct (order st)" and "draggingId st = Some d" and "d \<in> set (order st)"
  shows "mset (order (onDropOverItem st t)) = mset (order st)
       \<and> distinct (order (onDropOverItem st t))
       \<and> mset (order (onDropToListEnd st)) = mset (order st)
       \<and> distinct (order (onDropToListEnd st))"
proof -
  have a: "mset (order (onDropOverItem st t)) = mset (order st)"
    using assms by (simp add: onDropOverItem_def Let_def mset_insertAt filter_mset_neq)
  have b: "mset (order (onDropToListEnd st)) = mset (order st)"
    using assms by (simp add: onDropToListEnd_def filter_mset_neq)
  show ?thesis
    using a b assms(1) by (simp add: distinct_via_mset)
qed

theorem drop_is_permutation_witness:
  "distinct (order ex_editor) \<and> draggingId ex_editor = Some (ascii ''c'')
   \<and> ascii ''c'' \<in> set (order ex_editor)
   \<and> order (onDropOverItem ex_editor (ascii ''a'')) = [ascii ''c'', ascii ''a'', ascii ''b'']
   \<and> mset (order (onDropOverItem ex_editor (ascii ''a''))) = mset (order ex_editor)
   \<and> distinct (order (onDropOverItem ex_editor (ascii ''a'')))
   \<and> mset (order (onDropToListEnd ex_editor)) = mset (order ex_editor)
   \<and> distinct (order (onDropToListEnd ex_editor))"
proof -
  have h1: "distinct (order ex_editor)"
    by (simp add: ex_editor_def)
  have h2: "draggingId ex_editor = Some (ascii ''c'')"
    by (simp add: ex_editor_def)
  have h3: "ascii ''c'' \<in> set (order ex_editor)"
    by (simp add: ex_editor_def)
  have v: "order (onDropOverItem ex_editor (ascii ''a'')) = [ascii ''c'', ascii ''a'', ascii ''b'']"
    by (simp add: ex_editor_def onDropOverItem_def insertAt_def Let_def)
  show ?thesis
    using h1 h2 h3 v drop_is_permutation [OF h1 h2 h3, of "ascii ''a''"] by blast
qed


text \<open>
  \<^bold>\<open>C10\<close> (quick add). \<open>quickAddProductToCollection\<close> keeps the number of collections;
  a collection with the target id that lacks the product gets the id appended to its
  \<open>product_order\<close> (and a new \<open>updated_at\<close>); a collection with the target id that already
  has the product, and every collection with another id, is left as it is. Hence no
  \<open>product_order\<close> gains a duplicate, and doing the same addition again changes no
  collection.
\<close>

theorem quick_add_idempotent:
  "length (collections (quickAddProductToCollection now nid ts cid pid st)) = length (collections st)
   \<and> (\<forall>i < length (collections st).
         let c = collections st ! i;
             c' = collections (quickAddProductToCollection now nid ts cid pid st) ! i
         in (col_id c = cid \<and> pid \<notin> set (product_order c) \<longrightarrow>
               c' = c\<lparr>product_order := product_order c @ [pid], col_updated_at := now\<rparr>)
          \<and> (col_id c = cid \<and> pid \<in> set (product_order c) \<longrightarrow> c' = c)
          \<and> (col_id c \<noteq> cid \<longrightarrow> c' = c))
   \<and> ((\<forall>c \<in> set (collections st). distinct (product_order c)) \<longrightarrow>
        (\<forall>c \<in> set (collections (quickAddProductToCollection now nid ts cid pid st)).
            distinct (product_order c)))
   \<and> collections (quickAddProductToCollection now' nid' ts' cid pid
          (quickAddProductToCollection now nid ts cid pid st))
       = collections (quickAddProductToCollection now nid ts cid pid st)"
proof -
  let ?f = "\<lambda>n c. if col_id c = cid \<and> pid \<notin> set (product_order c)
                 then c\<lparr>product_order := product_order c @ [pid], col_updated_at := n\<rparr>
                 else c"
  have idem: "?f now' (?f now c) = ?f now c" for c
    by simp
  have "map (?f now') (map (?f now) (collections st)) = map (?f now) (collections st)"
    unfolding map_map comp_def using idem by simp
  then have d: "collections (quickAddProductToCollection now' nid' ts' cid pid
          (quickAddProductToCollection now nid ts cid pid st))
       = collections (quickAddProductToCollection now nid ts cid pid st)"
    by (simp add: quickAddProductToCollection_def)
  have a: "length (collections (quickAddProductToCollection now nid ts cid pid st))
         = length (collections st)"
    by (simp add: quickAddProductToCollection_def)
  have b: "\<forall>i < length (collections st).
         let c = collections st ! i;
             c' = collections (quickAddProductToCollection now nid ts cid pid st) ! i
         in (col_id c = cid \<and> pid \<notin> set (product_order c) \<longrightarrow>
               c' = c\<lparr>product_order := product_order c @ [pid], col_updated_at := now\<rparr>)
          \<and> (col_id c = cid \<and> pid \<in> set (product_order c) \<longrightarrow> c' = c)
          \<and> (col_id c \<noteq> cid \<longrightarrow> c' = c)"
    by (simp add: quickAddProductToCollection_def Let_def)
  have c: "(\<forall>c \<in> set (collections st). distinct (product_order c)) \<longrightarrow>
        (\<forall>c \<in> set (collections (quickAddProductToCollection now nid ts cid pid st)).
            distinct (product_order c))"
    by (auto simp: quickAddProductToCollection_def)
  show ?thesis using a b c d by blast
qed

theorem quick_add_idempotent_witness:
  "collections (quickAddProductToCollection (ascii ''2024-02-02'') (ascii ''e1'') 7
        (ascii ''c1'') (ascii ''p9'') ex_page) ! 0
     = (ex_col (ascii ''c1'') [ascii ''p1'', ascii ''p2''])
         \<lparr>product_order := [ascii ''p1'', ascii ''p2'', ascii ''p9''],
          col_updated_at := ascii ''2024-02-02''\<rparr>
   \<and> collections (quickAddProductToCollection (ascii ''2024-02-02'') (ascii ''e1'') 7
        (ascii ''c1'') (ascii ''p9'') ex_page) ! 1
     = ex_col (ascii ''c2'') [ascii ''p1'']
   \<and> collections (quickAddProductToCollection (ascii ''2024-02-02'') (ascii ''e1'') 7
        (ascii ''c1'') (ascii ''p2'') ex_page) ! 0
     = ex_col (ascii ''c1'') [ascii ''p1'', ascii ''p2'']
   \<and> list_all (\<lambda>c. distinct (product_order c))
        (collections (quickAddProductToCollection (ascii ''2024-02-02'') (ascii ''e1'') 7
           (ascii ''c1'') (ascii ''p9'') ex_page))
   \<and> collections (quickAddProductToCollection (ascii ''2024-03-03'') (ascii ''e2'') 8
          (ascii ''c1'') (ascii ''p9'')
          (quickAddProductToCollection (ascii ''2024-02-02'') (ascii ''e1'') 7
             (ascii ''c1'') (ascii ''p9'') ex_page))
       = collections (quickAddProductToCollection (ascii ''2024-02-02'') (ascii ''e1'') 7
           (ascii ''c1'') (ascii ''p9'') ex_page)"
proof -
  note th = quick_add_idempotent [of "ascii ''2024-02-02''" "ascii ''e1''" 7 "ascii ''c1''"
      "ascii ''p9''" ex_page "ascii ''2024-03-03''" "ascii ''e2''" 8]
  note th2 = quick_add_idempotent [of "ascii ''2024-02-02''" "ascii ''e1''" 7 "ascii ''c1''"
      "ascii ''p2''" ex_page "ascii ''2024-03-03''" "ascii ''e2''" 8]
  have len: "length (collections ex_page) = 2"
    by (simp add: ex_page_def)
  have e0: "collections ex_page ! 0 = ex_col (ascii ''c1'') [ascii ''p1'', ascii ''p2'']"
    and e1: "collections ex_page ! 1 = ex_col (ascii ''c2'') [ascii ''p1'']"
    by (simp_all add: ex_page_def)
  have a: "collections (quickAddProductToCollection (ascii ''2024-02-02'') (ascii ''e1'') 7
        (ascii ''c1'') (ascii ''p9'') ex_page) ! 0
     = (ex_col (ascii ''c1'') [ascii ''p1'', ascii ''p2''])
         \<lparr>product_order := [ascii ''p1'', ascii ''p2'', ascii ''p9''],
          col_updated_at := ascii ''2024-02-02''\<rparr>"
    using th len e0 by (simp add: Let_def ex_col_def)
  have b: "collections (quickAddProductToCollection (ascii ''2024-02-02'') (ascii ''e1'') 7
        (ascii ''c1'') (ascii ''p9'') ex_page) ! 1
     = ex_col (ascii ''c2'') [ascii ''p1'']"
    using th len e1 by (simp add: Let_def ex_col_def)
  have c: "collections (quickAddProductToCollection (ascii ''2024-02-02'') (ascii ''e1'') 7
        (ascii ''c1'') (ascii ''p2'') ex_page) ! 0
     = ex_col (ascii ''c1'') [ascii ''p1'', ascii ''p2'']"
    using th2 len e0 by (simp add: Let_def ex_col_def)
  have pre: "\<forall>c \<in> set (collections ex_page). distinct (product_order c)"
    by (simp add: ex_page_def ex_col_def)
  have d: "list_all (\<lambda>c. distinct (product_order c))
        (collections (quickAddProductToCollection (ascii ''2024-02-02'') (ascii ''e1'') 7
           (ascii ''c1'') (ascii ''p9'') ex_page))"
    using th pre unfolding list_all_iff by blast
  show ?thesis using a b c d th by blast
qed


section \<open>Properties of the document builder\<close>

lemma double_sum_map: "foldl (\<lambda>s x. fadd s (f x)) 0 xs = double_sum (map f xs)"
  by (simp add: double_sum_def foldl_map)

lemma seriesTotal_in_order: "seriesTotal s = double_sum (map price (items s))"
  by (simp add: seriesTotal_def double_sum_map)

lemma grandTotal_in_order: "grandTotal ps = double_sum (map seriesTotal ps)"
  by (simp add: grandTotal_def double_sum_map)

lemma groupTotal_in_order: "groupTotal rows = double_sum (map finalPrice rows)"
  by (simp add: groupTotal_def double_sum_map)

lemma grandTotal_pdf_in_order: "grandTotal_pdf rows = double_sum (map finalPrice rows)"
  by (simp add: grandTotal_pdf_def double_sum_map)

lemma grandTotal_html_in_order:
  "grandTotal_html gs = double_sum (map (\<lambda>g. groupTotal (snd g)) gs)"
  by (simp add: grandTotal_html_def groupTotal_def double_sum_map)

lemma push_to_group_mset:
  "mset (concat (map snd (push_to_group k r m))) = add_mset r (mset (concat (map snd m)))"
  by (induction k r m rule: push_to_group.induct) simp_all

lemma foldl_push_mset:
  "mset (concat (map snd (foldl (\<lambda>m row. push_to_group (keyf row) row m) acc rows)))
     = mset (concat (map snd acc)) + mset rows"
  by (induction rows arbitrary: acc) (simp_all add: push_to_group_mset)

lemma groups_mset: "mset (concat (map snd (groups mode rows))) = mset rows"
  by (cases mode) (simp_all add: groups_def group_rows_def foldl_push_mset)

text \<open>Sums of whole numbers that stay within \<open>2 ^ 53\<close> are exact.\<close>

lemma whole_nonneg: "x \<in> \<nat> \<Longrightarrow> (0::rat) \<le> x"
  by (auto elim: Nats_cases)

lemma sum_list_whole: "\<forall>x\<in>set xs. f x \<in> \<nat> \<Longrightarrow> sum_list (map f xs) \<in> (\<nat> :: rat set)"
  by (induction xs) simp_all

lemma fadd_whole:
  assumes "a \<in> \<nat>" and "b \<in> \<nat>" and "a + b \<le> 2 ^ 53"
  shows "fadd a b = a + b"
proof -
  from assms(1,2) obtain m n where mn: "a = of_nat m" "b = of_nat n"
    by (auto elim!: Nats_cases)
  have "(of_nat (m + n) :: rat) \<le> of_nat (2 ^ 53)"
    using assms(3) mn by simp
  then have "m + n \<le> 2 ^ 53"
    by (simp only: of_nat_le_iff)
  then have "round_double (of_nat (m + n)) = of_nat (m + n)"
    by (rule round_double_whole)
  then show ?thesis
    by (simp add: fadd_def mn)
qed

lemma foldl_fadd_whole:
  assumes "\<forall>x\<in>set xs. f x \<in> \<nat>" and "a \<in> \<nat>" and "a + sum_list (map f xs) \<le> 2 ^ 53"
  shows "foldl (\<lambda>s x. fadd s (f x)) a xs = a + sum_list (map f xs)"
  using assms
proof (induction xs arbitrary: a)
  case Nil
  show ?case by simp
next
  case (Cons x xs)
  have fx: "f x \<in> \<nat>" and rest: "\<forall>y\<in>set xs. f y \<in> \<nat>"
    using Cons.prems(1) by simp_all
  have "0 \<le> sum_list (map f xs)"
    using rest by (intro whole_nonneg sum_list_whole)
  then have "a + f x \<le> 2 ^ 53"
    using Cons.prems(3) by simp
  then have step: "fadd a (f x) = a + f x"
    using Cons.prems(2) fx by (intro fadd_whole)
  have "foldl (\<lambda>s x. fadd s (f x)) (a + f x) xs = (a + f x) + sum_list (map f xs)"
    using rest Cons.prems(2,3) fx by (intro Cons.IH) (simp_all add: add.assoc)
  then show ?case
    by (simp add: step add.assoc)
qed

lemma double_sum_whole:
  assumes "\<forall>x\<in>set xs. x \<in> \<nat>" and "sum_list xs \<le> 2 ^ 53"
  shows "double_sum xs = sum_list xs"
  using foldl_fadd_whole [where xs = xs and f = "\<lambda>x. x" and a = 0] assms by (simp add: double_sum_def)

lemma member_sum_le:
  assumes "x \<in> set xs" and "\<forall>y\<in>set xs. (0::rat) \<le> g y"
  shows "g x \<le> sum_list (map g xs)"
  using assms
proof (induction xs)
  case Nil
  then show ?case by simp
next
  case (Cons y ys)
  have "0 \<le> sum_list (map g ys)"
    using Cons.prems(2) by (intro sum_list_nonneg) auto
  moreover have "0 \<le> g y"
    using Cons.prems(2) by simp
  moreover have "x \<noteq> y \<Longrightarrow> g x \<le> sum_list (map g ys)"
    using Cons by simp
  ultimately show ?case
    by (cases "x = y") auto
qed

lemma sum_list_concat_map:
  "sum_list (map f (concat xss)) = sum_list (map (\<lambda>xs. sum_list (map f xs)) xss)"
  by (induction xss) simp_all

lemma nested_sums_whole:
  fixes f :: "'a \<Rightarrow> rat"
  assumes whole: "\<forall>xs\<in>set xss. \<forall>x\<in>set xs. f x \<in> \<nat>"
    and bound: "sum_list (map f (concat xss)) \<le> 2 ^ 53"
  shows "\<forall>xs\<in>set xss. double_sum (map f xs) = sum_list (map f xs)"
    and "double_sum (map (\<lambda>xs. double_sum (map f xs)) xss) = sum_list (map f (concat xss))"
proof -
  have nn: "\<forall>xs\<in>set xss. 0 \<le> sum_list (map f xs)"
    using whole by (auto intro!: whole_nonneg sum_list_whole)
  show inner: "\<forall>xs\<in>set xss. double_sum (map f xs) = sum_list (map f xs)"
  proof
    fix xs
    assume xs: "xs \<in> set xss"
    have "sum_list (map f xs) \<le> sum_list (map (\<lambda>xs. sum_list (map f xs)) xss)"
      using xs nn by (rule member_sum_le)
    then have "sum_list (map f xs) \<le> 2 ^ 53"
      using bound by (simp add: sum_list_concat_map)
    moreover have "\<forall>x\<in>set (map f xs). x \<in> \<nat>"
      using whole xs by auto
    ultimately show "double_sum (map f xs) = sum_list (map f xs)"
      by (intro double_sum_whole)
  qed
  have eq: "map (\<lambda>xs. double_sum (map f xs)) xss = map (\<lambda>xs. sum_list (map f xs)) xss"
    using inner by simp
  have "\<forall>y\<in>set (map (\<lambda>xs. sum_list (map f xs)) xss). y \<in> \<nat>"
    using whole by (auto intro!: sum_list_whole)
  moreover have "sum_list (map (\<lambda>xs. sum_list (map f xs)) xss) \<le> 2 ^ 53"
    using bound by (simp add: sum_list_concat_map)
  ultimately have "double_sum (map (\<lambda>xs. sum_list (map f xs)) xss)
      = sum_list (map (\<lambda>xs. sum_list (map f xs)) xss)"
    by (intro double_sum_whole)
  then show "double_sum (map (\<lambda>xs. double_sum (map f xs)) xss) = sum_list (map f (concat xss))"
    by (simp add: eq sum_list_concat_map)
qed

lemma series_totals_whole:
  assumes "\<forall>s\<in>set ps. \<forall>it\<in>set (items s). price it \<in> \<nat>"
    and "sum_list (map price (concat (map items ps))) \<le> 2 ^ 53"
  shows "\<forall>s\<in>set ps. seriesTotal s = sum_list (map price (items s))"
    and "grandTotal ps = sum_list (map price (concat (map items ps)))"
    and "grandTotal ps = sum_list (map seriesTotal ps)"
proof -
  have w: "\<forall>xs\<in>set (map items ps). \<forall>x\<in>set xs. price x \<in> \<nat>"
    using assms(1) by simp
  note n = nested_sums_whole [OF w assms(2)]
  show a: "\<forall>s\<in>set ps. seriesTotal s = sum_list (map price (items s))"
    using n(1) by (simp add: seriesTotal_in_order)
  have m: "map seriesTotal ps = map (\<lambda>xs. double_sum (map price xs)) (map items ps)"
    by (simp add: seriesTotal_in_order)
  show b: "grandTotal ps = sum_list (map price (concat (map items ps)))"
    using n(2) by (simp only: grandTotal_in_order m)
  have e1: "map seriesTotal ps = map (\<lambda>s. sum_list (map price (items s))) ps"
    using a by simp
  have e2: "sum_list (map price (concat (map items ps)))
      = sum_list (map (\<lambda>s. sum_list (map price (items s))) ps)"
    by (simp add: sum_list_concat_map comp_def)
  show "grandTotal ps = sum_list (map seriesTotal ps)"
    by (simp only: b e1 e2)
qed

lemma mset_sum_list_eq:
  fixes f :: "'a \<Rightarrow> rat"
  assumes "mset xs = mset ys"
  shows "sum_list (map f xs) = sum_list (map f ys)"
proof -
  have "sum_mset (image_mset f (mset xs)) = sum_mset (image_mset f (mset ys))"
    using assms by simp
  then show ?thesis
    by (simp only: mset_map [symmetric] sum_mset_sum_list)
qed

lemma group_totals_whole:
  assumes "\<forall>r\<in>set rows. finalPrice r \<in> \<nat>"
    and "sum_list (map finalPrice rows) \<le> 2 ^ 53"
  shows "\<forall>g\<in>set (groups mode rows). groupTotal (snd g) = sum_list (map finalPrice (snd g))"
    and "grandTotal_pdf rows = sum_list (map finalPrice rows)"
    and "grandTotal_html (groups mode rows) = sum_list (map finalPrice rows)"
    and "sum_list (map (\<lambda>g. groupTotal (snd g)) (groups mode rows))
           = sum_list (map finalPrice rows)"
proof -
  let ?gs = "groups mode rows"
  have part: "mset (concat (map snd ?gs)) = mset rows"
    by (rule groups_mset)
  then have "set (concat (map snd ?gs)) = set rows"
    by (rule mset_eq_setD)
  then have w: "\<forall>xs\<in>set (map snd ?gs). \<forall>x\<in>set xs. finalPrice x \<in> \<nat>"
    using assms(1) by auto
  have total: "sum_list (map finalPrice (concat (map snd ?gs))) = sum_list (map finalPrice rows)"
    using part by (rule mset_sum_list_eq)
  then have b: "sum_list (map finalPrice (concat (map snd ?gs))) \<le> 2 ^ 53"
    using assms(2) by simp
  note n = nested_sums_whole [OF w b]
  show a: "\<forall>g\<in>set ?gs. groupTotal (snd g) = sum_list (map finalPrice (snd g))"
    using n(1) by (simp add: groupTotal_in_order)
  have "\<forall>x\<in>set (map finalPrice rows). x \<in> \<nat>"
    using assms(1) by simp
  then show "grandTotal_pdf rows = sum_list (map finalPrice rows)"
    using assms(2) by (simp only: grandTotal_pdf_in_order double_sum_whole)
  have m: "map (\<lambda>g. groupTotal (snd g)) ?gs
      = map (\<lambda>xs. double_sum (map finalPrice xs)) (map snd ?gs)"
    by (simp add: groupTotal_in_order)
  show "grandTotal_html ?gs = sum_list (map finalPrice rows)"
    using n(2) total by (simp only: grandTotal_html_in_order m)
  have e1: "map (\<lambda>g. groupTotal (snd g)) ?gs = map (\<lambda>g. sum_list (map finalPrice (snd g))) ?gs"
    using a by simp
  have e2: "sum_list (map finalPrice (concat (map snd ?gs)))
      = sum_list (map (\<lambda>g. sum_list (map finalPrice (snd g))) ?gs)"
    by (simp add: sum_list_concat_map comp_def)
  show "sum_list (map (\<lambda>g. groupTotal (snd g)) ?gs) = sum_list (map finalPrice rows)"
    by (simp only: e1 e2 [symmetric] total)
qed

lemma generateDoc_ok:
  assumes "snd (ensureJsPdf env) = Resolved" and "ctor_available env" and "autoTable_attached env"
  shows "\<exists>doc. snd (generateDoc env fonts input t) = Inr doc
           \<and> doc_font doc = fst (snd (registerFont env fonts (fontName (THEMES t))))
           \<and> tables doc = map (series_table (documentData input)) (products input)
           \<and> summary doc = (if showGrandTotal (documentData input) \<and> products input \<noteq> []
                            then Some (grandTotal (products input)) else None)"
  using assms
  by (simp add: generateDoc_def Let_def split: option.splits prod.splits)

lemma generateDoc_Inr:
  assumes "snd (generateDoc env fonts input t) = Inr doc"
  shows "tables doc = map (series_table (documentData input)) (products input)"
    and "summary doc = (if showGrandTotal (documentData input) \<and> products input \<noteq> []
                        then Some (grandTotal (products input)) else None)"
  using assms
  by (auto simp: generateDoc_def Let_def split: load_outcome.splits option.splits if_splits prod.splits)

lemmas ex_doc_defs =
  ex_item_def ex_series_def ex_input_def ex_env_def ex_row_def ex_rows_def

text \<open>
  \<^bold>\<open>C2\<close> (grand total). The claim is that the grand total equals the sum of the
  subtotals and the sum of the price over all rows. The totals are sums of doubles, and
  the grand total adds the subtotals, not the rows: for the prices 0.1 in one series and
  0.2 and 0.3 in the next it is \<open>0.1 + (0.2 + 0.3)\<close>, the double printed as \<open>0.6\<close>, whereas the
  rows added one after the other give \<open>(0.1 + 0.2) + 0.3\<close>, the double printed as
  \<open>0.6000000000000001\<close>, and the exact sum of the three prices is no double at all. On the
  price-list page the same rows, grouped by product type, give a grand total in the print
  view that differs from the one in the PDF view.
\<close>

theorem grand_total_counterexample:
  "grandTotal ex_fraction_series = round_double 0.6
   \<and> double_sum (map price (concat (map items ex_fraction_series)))
       = round_double 0.6000000000000001
   \<and> grandTotal ex_fraction_series \<noteq> double_sum (map price (concat (map items ex_fraction_series)))
   \<and> grandTotal ex_fraction_series \<noteq> sum_list (map price (concat (map items ex_fraction_series)))
   \<and> map (map row_id) (map snd (groups GProductType ex_fraction_rows))
       = [[ascii ''r1''], [ascii ''r2'', ascii ''r3'']]
   \<and> grandTotal_html (groups GProductType ex_fraction_rows) = round_double 0.6
   \<and> grandTotal_pdf ex_fraction_rows = round_double 0.6000000000000001
   \<and> grandTotal_html (groups GProductType ex_fraction_rows) \<noteq> grandTotal_pdf ex_fraction_rows"
proof -
  have a: "grandTotal ex_fraction_series = round_double 0.6"
    by code_simp
  have b: "double_sum (map price (concat (map items ex_fraction_series)))
       = round_double 0.6000000000000001"
    by code_simp
  have c: "grandTotal ex_fraction_series \<noteq> sum_list (map price (concat (map items ex_fraction_series)))"
    by code_simp
  have d: "map (map row_id) (map snd (groups GProductType ex_fraction_rows))
       = [[ascii ''r1''], [ascii ''r2'', ascii ''r3'']]"
    by code_simp
  have e: "grandTotal_html (groups GProductType ex_fraction_rows) = round_double 0.6"
    by code_simp
  have f: "grandTotal_pdf ex_fraction_rows = round_double 0.6000000000000001"
    by code_simp
  have g: "round_double 0.6 \<noteq> round_double 0.6000000000000001"
    by code_simp
  have h: "grandTotal ex_fraction_series \<noteq> double_sum (map price (concat (map items ex_fraction_series)))"
    unfolding a b by (rule g)
  have i: "grandTotal_html (groups GProductType ex_fraction_rows) \<noteq> grandTotal_pdf ex_fraction_rows"
    unfolding e f by (rule g)
  show ?thesis
    using a b c d e f h i by blast
qed

text \<open>
  \<^bold>\<open>C2\<close>, as the code has it. In the document builder the grand total is the series
  totals added up in the order of the series, and each series total is the prices of
  exactly that series' rows added up in the order of the rows, every addition rounded to a
  double; a document that is built carries these numbers in its foot rows and its
  grand-total row, next to the rows they sum. On the price-list page, for each grouping
  mode, the groups hold the computed rows (each once), each group total adds up that
  group's rows, the grand total of the print view adds up the group totals and that of the
  PDF view adds up all rows. When every price is a whole number and the prices add up to
  at most \<open>2 ^ 53\<close>, no addition rounds: then the grand total is the sum of the subtotals and
  the sum of the price over all rows, each subtotal is the sum over its rows, and the
  print view and the PDF view agree.
\<close>

theorem grand_total_consistency:
  "grandTotal ps = double_sum (map seriesTotal ps)
   \<and> (\<forall>s \<in> set ps. seriesTotal s = double_sum (map price (items s)))
   \<and> (case snd (generateDoc env fonts input t) of
         Inl e \<Rightarrow> True
       | Inr doc \<Rightarrow>
           map body (tables doc) = map (\<lambda>s. map body_row (items s)) (products input)
           \<and> (showGroupTotals (documentData input) \<longrightarrow>
                map foot (tables doc) = map (\<lambda>s. Some (seriesTotal s)) (products input))
           \<and> (showGrandTotal (documentData input) \<and> products input \<noteq> [] \<longrightarrow>
                summary doc = Some (grandTotal (products input))))
   \<and> mset (concat (map snd (groups mode rows))) = mset rows
   \<and> (\<forall>g \<in> set (groups mode rows). groupTotal (snd g) = double_sum (map finalPrice (snd g)))
   \<and> grandTotal_html (groups mode rows)
       = double_sum (map (\<lambda>g. groupTotal (snd g)) (groups mode rows))
   \<and> grandTotal_pdf rows = double_sum (map finalPrice rows)
   \<and> ((\<forall>s \<in> set ps. \<forall>it \<in> set (items s). price it \<in> \<nat>)
        \<and> sum_list (map price (concat (map items ps))) \<le> 2 ^ 53 \<longrightarrow>
          grandTotal ps = sum_list (map seriesTotal ps)
          \<and> grandTotal ps = sum_list (map price (concat (map items ps)))
          \<and> (\<forall>s \<in> set ps. seriesTotal s = sum_list (map price (items s))))
   \<and> ((\<forall>r \<in> set rows. finalPrice r \<in> \<nat>) \<and> sum_list (map finalPrice rows) \<le> 2 ^ 53 \<longrightarrow>
          sum_list (map (\<lambda>g. groupTotal (snd g)) (groups mode rows)) = grandTotal_pdf rows
          \<and> grandTotal_html (groups mode rows) = grandTotal_pdf rows
          \<and> grandTotal_pdf rows = sum_list (map finalPrice rows)
          \<and> (\<forall>g \<in> set (groups mode rows).
                groupTotal (snd g) = sum_list (map finalPrice (snd g))))"
proof -
  have doc: "case snd (generateDoc env fonts input t) of
         Inl e \<Rightarrow> True
       | Inr doc \<Rightarrow>
           map body (tables doc) = map (\<lambda>s. map body_row (items s)) (products input)
           \<and> (showGroupTotals (documentData input) \<longrightarrow>
                map foot (tables doc) = map (\<lambda>s. Some (seriesTotal s)) (products input))
           \<and> (showGrandTotal (documentData input) \<and> products input \<noteq> [] \<longrightarrow>
                summary doc = Some (grandTotal (products input)))"
    by (auto simp: generateDoc_Inr series_table_def split: sum.splits)
  have whole_doc: "(\<forall>s \<in> set ps. \<forall>it \<in> set (items s). price it \<in> \<nat>)
        \<and> sum_list (map price (concat (map items ps))) \<le> 2 ^ 53 \<longrightarrow>
          grandTotal ps = sum_list (map seriesTotal ps)
          \<and> grandTotal ps = sum_list (map price (concat (map items ps)))
          \<and> (\<forall>s \<in> set ps. seriesTotal s = sum_list (map price (items s)))"
  proof (intro impI, elim conjE)
    assume w: "\<forall>s \<in> set ps. \<forall>it \<in> set (items s). price it \<in> \<nat>"
      and b: "sum_list (map price (concat (map items ps))) \<le> 2 ^ 53"
    note g = series_totals_whole [OF w b]
    show "grandTotal ps = sum_list (map seriesTotal ps)
          \<and> grandTotal ps = sum_list (map price (concat (map items ps)))
          \<and> (\<forall>s \<in> set ps. seriesTotal s = sum_list (map price (items s)))"
      using g by blast
  qed
  have whole_page: "(\<forall>r \<in> set rows. finalPrice r \<in> \<nat>) \<and> sum_list (map finalPrice rows) \<le> 2 ^ 53 \<longrightarrow>
          sum_list (map (\<lambda>g. groupTotal (snd g)) (groups mode rows)) = grandTotal_pdf rows
          \<and> grandTotal_html (groups mode rows) = grandTotal_pdf rows
          \<and> grandTotal_pdf rows = sum_list (map finalPrice rows)
          \<and> (\<forall>g \<in> set (groups mode rows).
                groupTotal (snd g) = sum_list (map finalPrice (snd g)))"
  proof (intro impI, elim conjE)
    assume w: "\<forall>r \<in> set rows. finalPrice r \<in> \<nat>" and b: "sum_list (map finalPrice rows) \<le> 2 ^ 53"
    note g = group_totals_whole [OF w b]
    show "sum_list (map (\<lambda>g. groupTotal (snd g)) (groups mode rows)) = grandTotal_pdf rows
          \<and> grandTotal_html (groups mode rows) = grandTotal_pdf rows
          \<and> grandTotal_pdf rows = sum_list (map finalPrice rows)
          \<and> (\<forall>g \<in> set (groups mode rows).
                groupTotal (snd g) = sum_list (map finalPrice (snd g)))"
      by (simp only: g simp_thms) (rule g(1))
  qed
  have in_order: "grandTotal ps = double_sum (map seriesTotal ps)"
    "\<forall>s \<in> set ps. seriesTotal s = double_sum (map price (items s))"
    "\<forall>g \<in> set (groups mode rows). groupTotal (snd g) = double_sum (map finalPrice (snd g))"
    "grandTotal_html (groups mode rows)
       = double_sum (map (\<lambda>g. groupTotal (snd g)) (groups mode rows))"
    "grandTotal_pdf rows = double_sum (map finalPrice rows)"
    by (simp_all add: grandTotal_in_order seriesTotal_in_order groupTotal_in_order
        grandTotal_html_in_order grandTotal_pdf_in_order)
  show ?thesis
    using doc whole_doc whole_page in_order groups_mset [of mode rows] by blast
qed

theorem grand_total_consistency_witness:
  "list_all (\<lambda>it. price it \<in> \<nat>) (concat (map items ex_series))
   \<and> sum_list (map price (concat (map items ex_series))) = 83500
   \<and> map seriesTotal ex_series = [33300, 50200]
   \<and> grandTotal ex_series = 83500
   \<and> map foot (tables (projr (snd (generateDoc (ex_env True True True) [] ex_input Nordic))))
       = [Some 33300, Some 50200]
   \<and> summary (projr (snd (generateDoc (ex_env True True True) [] ex_input Nordic))) = Some 83500
   \<and> list_all (\<lambda>r. finalPrice r \<in> \<nat>) ex_rows
   \<and> map (\<lambda>g. map row_id (snd g)) (groups GProductType ex_rows)
       = [[ascii ''r1'', ascii ''r3''], [ascii ''r2''], [ascii ''r4'']]
   \<and> map (\<lambda>g. groupTotal (snd g)) (groups GProductType ex_rows) = [140, 250, 10]
   \<and> grandTotal_html (groups GProductType ex_rows) = 400
   \<and> grandTotal_pdf ex_rows = 400"
proof -
  note th = grand_total_consistency [where ps = ex_series and env = "ex_env True True True"
      and fonts = "[]" and input = ex_input and t = Nordic and mode = GProductType and rows = ex_rows]
  have w1: "list_all (\<lambda>it. price it \<in> \<nat>) (concat (map items ex_series))"
    by (simp add: ex_doc_defs)
  have flat: "sum_list (map price (concat (map items ex_series))) = 83500"
    by (simp add: ex_doc_defs)
  have h1: "(\<forall>s \<in> set ex_series. \<forall>it \<in> set (items s). price it \<in> \<nat>)
      \<and> sum_list (map price (concat (map items ex_series))) \<le> 2 ^ 53"
    unfolding flat by (simp add: ex_doc_defs)
  have w2: "list_all (\<lambda>r. finalPrice r \<in> \<nat>) ex_rows"
    by (simp add: ex_doc_defs)
  have flat2: "sum_list (map finalPrice ex_rows) = 400"
    by (simp add: ex_doc_defs)
  have h2: "(\<forall>r \<in> set ex_rows. finalPrice r \<in> \<nat>) \<and> sum_list (map finalPrice ex_rows) \<le> 2 ^ 53"
    unfolding flat2 by (simp add: ex_doc_defs)
  from th h1 have s1: "\<forall>s \<in> set ex_series. seriesTotal s = sum_list (map price (items s))"
    by blast
  have st: "map seriesTotal ex_series = [33300, 50200]"
  proof -
    have "map seriesTotal ex_series = map (\<lambda>s. sum_list (map price (items s))) ex_series"
      using s1 by simp
    also have "\<dots> = [33300, 50200]"
      by (simp add: ex_doc_defs)
    finally show ?thesis .
  qed
  from th h1 have "grandTotal ex_series = sum_list (map price (concat (map items ex_series)))"
    by blast
  then have gt: "grandTotal ex_series = 83500"
    by (simp only: flat)
  have ok: "\<exists>doc. snd (generateDoc (ex_env True True True) [] ex_input Nordic) = Inr doc"
    using generateDoc_ok [where env = "ex_env True True True" and fonts = "[]" and input = ex_input
        and t = Nordic]
    by (auto simp: ex_env_def ensureJsPdf_def load_scripts_def Let_def)
  have flags: "showGroupTotals (documentData ex_input)" "showGrandTotal (documentData ex_input)"
    "products ex_input = ex_series" "ex_series \<noteq> []"
    by (simp_all add: ex_input_def ex_series_def)
  from ok obtain doc where d: "snd (generateDoc (ex_env True True True) [] ex_input Nordic) = Inr doc"
    by blast
  from th d flags have ft0: "map foot (tables doc) = map (\<lambda>s. Some (seriesTotal s)) ex_series"
    by simp
  from th d flags have sm0: "summary doc = Some (grandTotal ex_series)"
    by simp
  have st': "map (\<lambda>s. Some (seriesTotal s)) ex_series = [Some 33300, Some 50200]"
    using st by (simp add: ex_series_def)
  have ft: "map foot (tables (projr (snd (generateDoc (ex_env True True True) []
      ex_input Nordic)))) = [Some 33300, Some 50200]"
    using d ft0 st' by simp
  have sm: "summary (projr (snd (generateDoc (ex_env True True True) []
      ex_input Nordic))) = Some 83500"
    using d sm0 gt by simp
  have gr: "map (\<lambda>g. map row_id (snd g)) (groups GProductType ex_rows)
       = [[ascii ''r1'', ascii ''r3''], [ascii ''r2''], [ascii ''r4'']]"
    by (simp add: groups_def group_rows_def ex_rows_def ex_row_def or_str_def key_no_type_def
        ascii_def)
  from th h2 have g1: "\<forall>g \<in> set (groups GProductType ex_rows).
      groupTotal (snd g) = sum_list (map finalPrice (snd g))"
    by blast
  have gts: "map (\<lambda>g. groupTotal (snd g)) (groups GProductType ex_rows) = [140, 250, 10]"
  proof -
    have "map (\<lambda>g. groupTotal (snd g)) (groups GProductType ex_rows)
        = map (\<lambda>g. sum_list (map finalPrice (snd g))) (groups GProductType ex_rows)"
      using g1 by simp
    also have "\<dots> = [140, 250, 10]"
      by (simp add: groups_def group_rows_def ex_rows_def ex_row_def or_str_def key_no_type_def
          ascii_def)
    finally show ?thesis .
  qed
  from th h2 have "grandTotal_pdf ex_rows = sum_list (map finalPrice ex_rows)"
    by blast
  then have pdf: "grandTotal_pdf ex_rows = 400"
    by (simp only: flat2)
  from th h2 have "grandTotal_html (groups GProductType ex_rows) = grandTotal_pdf ex_rows"
    by blast
  then have html: "grandTotal_html (groups GProductType ex_rows) = 400"
    by (simp only: pdf)
  show ?thesis
    using w1 flat st gt ft sm w2 gr gts html pdf by blast
qed











section \<open>Properties of the AI service\<close>

lemma toFixed2_positive:
  assumes "1 \<le> x"
  shows "0 < toFixed2 x"
proof -
  have "1 \<le> x * 100 + 1 / 2"
    using assms by simp
  then have "1 \<le> \<lfloor>x * 100 + 1 / 2\<rfloor>"
    by (simp add: le_floor_iff)
  then show ?thesis
    by (simp add: toFixed2_def)
qed

lemma quantities_positive:
  "case penal_quantities p (base_quantities a b c) of
     (l, e, h) \<Rightarrow> 1 \<le> l \<and> 0 < e \<and> 0 < h"
  by (cases a; cases b; cases c; cases p)
    (simp_all add: penal_quantities_def base_quantities_def)

lemma mirror_list_positive:
  "mirror_list c a b \<noteq> [] \<and> (\<forall>x \<in> set (mirror_list c a b). 0 < ai_quantity x)"
  by (simp add: mirror_list_def Let_def)

lemma furniture_list_positive:
  assumes "0 < toFixed2 l" and "0 < e" and "0 < h"
  shows "furniture_list c wh wn a (l, e, h) \<noteq> []
       \<and> (\<forall>x \<in> set (furniture_list c wh wn a (l, e, h)). 0 < ai_quantity x)"
  using assms by (auto simp: furniture_list_def Let_def)

lemma techCardSuggest_good:
  "techCardSuggest p b c \<noteq> [] \<and> (\<forall>x \<in> set (techCardSuggest p b c). 0 < ai_quantity x)"
proof -
  let ?text = "p @ ascii '' '' @ opt_str b"
  let ?q = "penal_quantities (hasAny ?text [kw_penal, ascii ''penal''])
      (base_quantities (hasAny ?text [ascii ''600'']) (hasAny ?text [ascii ''800''])
         (hasAny ?text [ascii ''1000'', kw_1000mm, ascii ''1 000'']))"
  obtain l e h where q: "?q = (l, e, h)"
    by (cases ?q) auto
  have "1 \<le> l \<and> 0 < e \<and> 0 < h"
    using quantities_positive [of "hasAny ?text [kw_penal, ascii ''penal'']"
        "hasAny ?text [ascii ''600'']" "hasAny ?text [ascii ''800'']"
        "hasAny ?text [ascii ''1000'', kw_1000mm, ascii ''1 000'']"]
    by (simp add: q)
  then have pos: "0 < toFixed2 l \<and> 0 < e \<and> 0 < h"
    by (simp add: toFixed2_positive)
  show ?thesis
  proof (cases "hasAny ?text [kw_zerkal, ascii ''mirror'', ascii ''mir-'']")
    case True
    then show ?thesis
      using mirror_list_positive by (simp add: techCardSuggest_def Let_def)
  next
    case False
    then show ?thesis
      using furniture_list_positive [of l e h] pos q by (simp add: techCardSuggest_def Let_def)
  qed
qed

lemma techCardSuggest_nonempty: "techCardSuggest p b c \<noteq> []"
  using techCardSuggest_good by blast

lemma techCardSuggest_positive: "\<forall>x \<in> set (techCardSuggest p b c). 0 < ai_quantity x"
  using techCardSuggest_good by blast

lemma collectionDescription_nonempty: "collectionDescription n g ps \<noteq> []"
  by (simp add: collectionDescription_def Let_def txt_pitch_def)

lemma post_failed:
  assumes "r = HttpError st txt \<or> r = Thrown m \<or> (r = Json b \<and> rb_error b = Some e \<and> e \<noteq> [])"
  shows "ok (post r) = False"
  using assms by (auto simp: post_def truthy_str_def)

lemma suggestTechCard_failed:
  "ok (post r) = False \<Longrightarrow> suggestTechCard r p b c = techCardSuggest p b c"
  by (simp add: suggestTechCard_def Let_def)

lemma generateCollectionDescription_failed:
  "ok (post r) = False \<Longrightarrow> generateCollectionDescription r n g ps = collectionDescription n g ps"
  by (simp add: generateCollectionDescription_def Let_def)


text \<open>
  \<^bold>\<open>C8\<close> (fallback availability). When the gateway call fails (a response that is not 2xx,
  a thrown error, or a body with a non-empty \<open>error\<close> field) \<open>suggestTechCard\<close> returns what the
  local heuristic returns, a non-empty list whose quantities are all positive, and
  \<open>generateCollectionDescription\<close> returns the local description, a non-empty string. This
  holds for every product name, brief and catalog, the empty catalog included. Both
  operations are total: the call's failures are values of \<open>post\<close>.
\<close>

theorem fallback_availability:
  assumes "r = HttpError st txt \<or> r = Thrown m \<or> (r = Json b \<and> rb_error b = Some e \<and> e \<noteq> [])"
  shows "ok (post r) = False
       \<and> suggestTechCard r productName brief catalog = techCardSuggest productName brief catalog
       \<and> suggestTechCard r productName brief catalog \<noteq> []
       \<and> (\<forall>x \<in> set (suggestTechCard r productName brief catalog). 0 < ai_quantity x)
       \<and> generateCollectionDescription r name grp productNames
           = collectionDescription name grp productNames
       \<and> generateCollectionDescription r name grp productNames \<noteq> []"
proof -
  have f: "ok (post r) = False"
    using assms by (rule post_failed)
  have s: "suggestTechCard r productName brief catalog = techCardSuggest productName brief catalog"
    using f by (rule suggestTechCard_failed)
  have d: "generateCollectionDescription r name grp productNames
           = collectionDescription name grp productNames"
    using f by (rule generateCollectionDescription_failed)
  show ?thesis
    using f s d techCardSuggest_nonempty [of productName brief catalog]
      techCardSuggest_positive [of productName brief catalog]
      collectionDescription_nonempty [of name grp productNames]
    by simp
qed

theorem fallback_availability_witness:
  "ok (post (HttpError 500 [])) = False
   \<and> map ai_quantity (suggestTechCard (HttpError 500 []) (ascii ''Penal 800 handle'') None []) = [3, 9, 4, 2]
   \<and> list_all (\<lambda>x. 0 < ai_quantity x)
        (suggestTechCard (HttpError 500 []) (ascii ''Penal 800 handle'') None [])
   \<and> suggestTechCard (Thrown None) (ascii ''MIR-600'') (Some (ascii ''mirror'')) ex_catalog \<noteq> []
   \<and> generateCollectionDescription (HttpError 500 []) (ascii ''Berlin'') None [] \<noteq> []
   \<and> take 6 (generateCollectionDescription (HttpError 500 []) (ascii ''Berlin'') None [])
       = ascii ''Berlin''"
proof -
  have h1: "HttpError 500 [] = HttpError 500 [] \<or> HttpError 500 [] = Thrown None
      \<or> (HttpError 500 [] = Json undefined \<and> rb_error undefined = Some [] \<and> [] \<noteq> ([]::ustring))"
    by simp
  note t1 = fallback_availability [OF h1, where productName = "ascii ''Penal 800 handle''"
      and brief = None and catalog = "[]" and name = "ascii ''Berlin''" and grp = None
      and productNames = "[]"]
  have h2: "Thrown None = HttpError 0 [] \<or> Thrown None = Thrown None
      \<or> (Thrown None = Json undefined \<and> rb_error undefined = Some [] \<and> [] \<noteq> ([]::ustring))"
    by simp
  note t2 = fallback_availability [OF h2, where productName = "ascii ''MIR-600''"
      and brief = "Some (ascii ''mirror'')" and catalog = ex_catalog and name = "[]" and grp = None
      and productNames = "[]"]
  have q: "map ai_quantity (techCardSuggest (ascii ''Penal 800 handle'') None []) = [3, 9, 4, 2]"
    by (simp add: techCardSuggest_def Let_def hasAny_def low_def trim_def is_space_def
        toLowerCase_def lower_unit_def ascii_def toFixed2_def floor_eq_iff findInCatalog_def
        penal_quantities_def base_quantities_def furniture_list_def mirror_list_def
        kw_tumb_def kw_penal_def kw_zerkal_def kw_1000mm_def kw_dver_def kw_petl_def kw_ruchk_def
        opt_str_def)
  have a: "ok (post (HttpError 500 [])) = False"
    using t1 by blast
  have b: "map ai_quantity (suggestTechCard (HttpError 500 []) (ascii ''Penal 800 handle'') None [])
      = [3, 9, 4, 2]"
    using t1 q by simp
  have c: "list_all (\<lambda>x. 0 < ai_quantity x)
        (suggestTechCard (HttpError 500 []) (ascii ''Penal 800 handle'') None [])"
    using t1 unfolding list_all_iff by blast
  have d: "suggestTechCard (Thrown None) (ascii ''MIR-600'') (Some (ascii ''mirror'')) ex_catalog \<noteq> []"
    using t2 by blast
  have e: "generateCollectionDescription (HttpError 500 []) (ascii ''Berlin'') None [] \<noteq> []"
    using t1 by blast
  have cd: "take 6 (collectionDescription (ascii ''Berlin'') None []) = ascii ''Berlin''"
    by (simp add: collectionDescription_def Let_def or_str_def truthy_str_def ascii_def)
  have f: "take 6 (generateCollectionDescription (HttpError 500 []) (ascii ''Berlin'') None [])
       = ascii ''Berlin''"
    using t1 cd by simp
  show ?thesis
    using a b c d e f by blast
qed


section \<open>Properties of the CSV import\<close>

lemma find_last_index_None: "find_last_index P xs = None \<longleftrightarrow> (\<forall>x \<in> set xs. \<not> P x)"
  by (induction xs) (auto split: option.splits)

lemma find_last_index_Some:
  "find_last_index P xs = Some i \<Longrightarrow> i < length xs \<and> P (xs ! i)"
  by (induction xs arbitrary: i) (auto split: option.splits if_splits)

lemma find_last_index_unique:
  assumes "\<forall>j<length xs. f (xs ! j) = k \<longrightarrow> j = i" and "i < length xs" and "f (xs ! i) = k"
  shows "find_last_index (\<lambda>m. f m = k) xs = Some i"
proof -
  have "xs ! i \<in> set xs" using assms(2) by simp
  then have "find_last_index (\<lambda>m. f m = k) xs \<noteq> None"
    using assms(3) by (auto simp: find_last_index_None)
  then obtain j where j: "find_last_index (\<lambda>m. f m = k) xs = Some j" by auto
  then have "j < length xs" and "f (xs ! j) = k"
    using find_last_index_Some [of "\<lambda>m. f m = k" xs j] by auto
  with assms(1) have "j = i" by blast
  with j show ?thesis by simp
qed

lemma filter_key_unique:
  assumes "\<forall>j<length xs. f (xs ! j) = k \<longrightarrow> j = i" and "i < length xs" and "f (xs ! i) = k"
  shows "filter (\<lambda>m. f m = k) xs = [xs ! i]"
  using assms
proof (induction xs arbitrary: i)
  case Nil
  then show ?case by simp
next
  case (Cons x xs)
  show ?case
  proof (cases i)
    case 0
    with Cons.prems have fx: "f x = k" by simp
    have "f m \<noteq> k" if "m \<in> set xs" for m
    proof
      assume "f m = k"
      from that obtain j where "j < length xs" "xs ! j = m"
        by (auto simp: in_set_conv_nth)
      with \<open>f m = k\<close> Cons.prems(1) have "Suc j = i"
        by (auto simp del: length_Cons nth_Cons_Suc dest!: spec [where x = "Suc j"])
      with 0 show False by simp
    qed
    then have "filter (\<lambda>m. f m = k) xs = []" by (simp add: filter_empty_conv)
    with 0 fx show ?thesis by simp
  next
    case (Suc j)
    with Cons.prems have j: "j < length xs" "f (xs ! j) = k" by auto
    have u: "\<forall>j'<length xs. f (xs ! j') = k \<longrightarrow> j' = j"
    proof (intro allI impI)
      fix j'
      assume "j' < length xs" "f (xs ! j') = k"
      with Cons.prems(1) have "Suc j' = i"
        by (auto dest!: spec [where x = "Suc j'"])
      with Suc show "j' = j" by simp
    qed
    have "f x \<noteq> k"
    proof
      assume "f x = k"
      with Cons.prems(1) have "0 = i"
        by (auto dest!: spec [where x = 0])
      with Suc show False by simp
    qed
    with Suc Cons.IH [OF u j(1) j(2)] show ?thesis by simp
  qed
qed

lemma article_key_update [simp]: "article_key lower (update_existing now e it) = article_key lower e"
  by (simp add: article_key_def update_existing_def)

lemma cm_id_update [simp]: "cm_id (update_existing now e it) = cm_id e"
  by (simp add: update_existing_def)

lemma map_list_update_same:
  "i < length xs \<Longrightarrow> f y = f (xs ! i) \<Longrightarrow> map f (xs[i := y]) = map f xs"
  by (simp add: map_update list_update_same_conv)

lemma import_step_hit:
  assumes uniq: "\<forall>j<length stored. article_key lower (stored ! j) = k \<longrightarrow> j = i"
    and i: "i < length stored" "article_key lower (stored ! i) = k" "k \<noteq> []"
    and inv: "import_inv lower stored k st"
    and key: "article_key lower it = k"
  shows "import_inv lower stored k (import_step lower stored fresh clock st it)"
    and "st_items (import_step lower stored fresh clock st it) ! i
           = update_existing (clock (st_added st + st_updated st)) (st_items st ! i) it"
proof -
  have f: "find_last_index (\<lambda>m. article_key lower m = k) stored = Some i"
    using uniq i(1,2) by (rule find_last_index_unique)
  have len: "length (st_items st) = length stored"
    using inv by (metis import_inv_def length_map)
  show "import_inv lower stored k (import_step lower stored fresh clock st it)"
    using inv f key i len
    by (simp add: import_step_def Let_def import_inv_def map_list_update_same)
  show "st_items (import_step lower stored fresh clock st it) ! i
           = update_existing (clock (st_added st + st_updated st)) (st_items st ! i) it"
    using f key i len by (simp add: import_step_def Let_def)
qed

lemma import_step_new:
  assumes "article_key lower it = [] \<or> find_last_index (\<lambda>m. article_key lower m = article_key lower it) stored = None"
  shows "import_step lower stored fresh clock st it =
    st\<lparr>st_new := it\<lparr>cm_id := fresh (st_added st),
                        cm_created_at := clock (st_added st + st_updated st),
                        cm_updated_at := clock (st_added st + st_updated st)\<rparr> # st_new st,
       st_added := st_added st + 1\<rparr>"
  using assms by (auto simp: import_step_def Let_def)

lemma import_step_existing:
  assumes "article_key lower it \<noteq> []"
    and "find_last_index (\<lambda>m. article_key lower m = article_key lower it) stored = Some j"
  shows "import_step lower stored fresh clock st it =
    st\<lparr>st_items := (st_items st)[j := update_existing (clock (st_added st + st_updated st))
                                        (st_items st ! j) it],
       st_updated := st_updated st + 1\<rparr>"
  using assms by (simp add: import_step_def Let_def)

lemma article_key_fresh [simp]:
  "article_key lower (it\<lparr>cm_id := a, cm_created_at := b, cm_updated_at := c\<rparr>) = article_key lower it"
  by (simp add: article_key_def)

lemma import_step_miss:
  assumes uniq: "\<forall>j<length stored. article_key lower (stored ! j) = k \<longrightarrow> j = i"
    and i: "i < length stored" "article_key lower (stored ! i) = k" "k \<noteq> []"
    and inv: "import_inv lower stored k st"
    and key: "article_key lower it \<noteq> k"
  shows "import_inv lower stored k (import_step lower stored fresh clock st it)"
    and "st_items (import_step lower stored fresh clock st it) ! i = st_items st ! i"
proof -
  have len: "length (st_items st) = length stored"
    using inv by (metis import_inv_def length_map)
  consider (new) "article_key lower it = [] \<or> find_last_index (\<lambda>m. article_key lower m = article_key lower it) stored = None"
    | (existing) j where "article_key lower it \<noteq> []"
        "find_last_index (\<lambda>m. article_key lower m = article_key lower it) stored = Some j"
    by (cases "find_last_index (\<lambda>m. article_key lower m = article_key lower it) stored") auto
  then have "import_inv lower stored k (import_step lower stored fresh clock st it)
      \<and> st_items (import_step lower stored fresh clock st it) ! i = st_items st ! i"
  proof cases
    case new
    then show ?thesis
      using inv key by (simp add: import_step_new import_inv_def)
  next
    case existing
    then have j: "j < length stored" "article_key lower (stored ! j) = article_key lower it"
      using find_last_index_Some [of "\<lambda>m. article_key lower m = article_key lower it" stored j] by auto
    with key i(2) have "j \<noteq> i" by auto
    with existing j show ?thesis
      using inv len by (simp add: import_step_existing import_inv_def map_list_update_same)
  qed
  then show "import_inv lower stored k (import_step lower stored fresh clock st it)"
    and "st_items (import_step lower stored fresh clock st it) ! i = st_items st ! i"
    by simp_all
qed

lemma import_foldl_miss:
  assumes uniq: "\<forall>j<length stored. article_key lower (stored ! j) = k \<longrightarrow> j = i"
    and i: "i < length stored" "article_key lower (stored ! i) = k" "k \<noteq> []"
    and inv: "import_inv lower stored k st"
    and keys: "\<forall>r \<in> set rows. article_key lower r \<noteq> k"
  shows "import_inv lower stored k (foldl (import_step lower stored fresh clock) st rows)
       \<and> st_items (foldl (import_step lower stored fresh clock) st rows) ! i = st_items st ! i"
  using inv keys
proof (induction rows arbitrary: st)
  case Nil
  then show ?case by simp
next
  case (Cons r rows)
  from Cons.prems have kr: "article_key lower r \<noteq> k" by simp
  note s = import_step_miss [OF uniq i Cons.prems(1) kr, of fresh clock]
  from Cons.prems have "\<forall>r \<in> set rows. article_key lower r \<noteq> k" by simp
  from Cons.IH [OF s(1) this] s(2) show ?case by simp
qed


lemma import_inv_init: "import_inv lower stored k \<lparr>st_new = [], st_items = stored, st_added = 0, st_updated = 0\<rparr>"
  by (simp add: import_inv_def)

lemma import_inv_filter:
  assumes uniq: "\<forall>j<length stored. article_key lower (stored ! j) = k \<longrightarrow> j = i"
    and i: "i < length stored" "article_key lower (stored ! i) = k"
    and inv: "import_inv lower stored k st"
  shows "filter (\<lambda>m. article_key lower m = k) (st_new st @ st_items st) = [st_items st ! i]"
proof -
  have keys: "map (article_key lower) (st_items st) = map (article_key lower) stored"
    using inv by (simp add: import_inv_def)
  then have len: "length (st_items st) = length stored"
    by (metis length_map)
  have "article_key lower (st_items st ! i) = map (article_key lower) (st_items st) ! i"
    using i(1) len by simp
  then have ki: "article_key lower (st_items st ! i) = k"
    using keys i by simp
  have same: "article_key lower (st_items st ! j) = article_key lower (stored ! j)"
    if "j < length stored" for j
  proof -
    have "map (article_key lower) (st_items st) ! j = map (article_key lower) stored ! j"
      by (simp only: keys)
    then show ?thesis
      using that len by simp
  qed
  have d: "\<forall>j<length (st_items st). article_key lower (st_items st ! j) = k \<longrightarrow> j = i"
    using uniq same len by simp
  have a: "filter (\<lambda>m. article_key lower m = k) (st_items st) = [st_items st ! i]"
  proof (rule filter_key_unique [OF d])
    show "i < length (st_items st)" using i(1) len by simp
    show "article_key lower (st_items st ! i) = k" by (rule ki)
  qed
  have "list_all (\<lambda>a. article_key lower a \<noteq> k) (st_new st)"
    using inv by (simp add: import_inv_def)
  then have b: "filter (\<lambda>m. article_key lower m = k) (st_new st) = []"
    by (simp add: filter_empty_conv list_all_iff)
  show ?thesis using a b by simp
qed

lemma merge_two_rows:
  assumes uniq: "\<forall>j<length stored. article_key lower (stored ! j) = k \<longrightarrow> j = i"
    and i: "i < length stored" "article_key lower (stored ! i) = k" "k \<noteq> []"
    and k1: "article_key lower r1 = k" and k2: "article_key lower r2 = k"
    and others: "\<forall>r \<in> set (front @ mid @ rest). article_key lower r \<noteq> k"
  shows "\<exists>t1 t2. import_inv lower stored k (merge_imported lower stored fresh clock (front @ r1 # mid @ r2 # rest))
       \<and> st_items (merge_imported lower stored fresh clock (front @ r1 # mid @ r2 # rest)) ! i
           = update_existing t2 (update_existing t1 (stored ! i) r1) r2"
proof -
  let ?step = "import_step lower stored fresh clock"
  let ?s0 = "\<lparr>st_new = [], st_items = stored, st_added = 0, st_updated = 0\<rparr>"
  let ?s1 = "foldl ?step ?s0 front"
  let ?s2 = "?step ?s1 r1"
  let ?s3 = "foldl ?step ?s2 mid"
  let ?s4 = "?step ?s3 r2"
  let ?s5 = "foldl ?step ?s4 rest"
  from others have o1: "\<forall>r \<in> set front. article_key lower r \<noteq> k"
    and o2: "\<forall>r \<in> set mid. article_key lower r \<noteq> k"
    and o3: "\<forall>r \<in> set rest. article_key lower r \<noteq> k"
    by auto
  have a1: "import_inv lower stored k ?s1 \<and> st_items ?s1 ! i = st_items ?s0 ! i"
    using uniq i import_inv_init o1 by (rule import_foldl_miss)
  then have i1: "import_inv lower stored k ?s1" and v1: "st_items ?s1 ! i = stored ! i"
    by simp_all
  note h2 = import_step_hit [OF uniq i i1 k1, of fresh clock]
  have a3: "import_inv lower stored k ?s3 \<and> st_items ?s3 ! i = st_items ?s2 ! i"
    using uniq i h2(1) o2 by (rule import_foldl_miss)
  then have i3: "import_inv lower stored k ?s3" and v3: "st_items ?s3 ! i = st_items ?s2 ! i"
    by simp_all
  note h4 = import_step_hit [OF uniq i i3 k2, of fresh clock]
  have a5: "import_inv lower stored k ?s5 \<and> st_items ?s5 ! i = st_items ?s4 ! i"
    using uniq i h4(1) o3 by (rule import_foldl_miss)
  have m: "merge_imported lower stored fresh clock (front @ r1 # mid @ r2 # rest) = ?s5"
    by (simp add: merge_imported_def)
  have "st_items ?s5 ! i
      = update_existing (clock (st_added ?s3 + st_updated ?s3))
          (update_existing (clock (st_added ?s1 + st_updated ?s1)) (stored ! i) r1) r2"
    using a5 h4(2) v3 h2(2) v1 by simp
  with a5 m show ?thesis by metis
qed

lemma coerceMaterial_name:
  "coerceMaterial Number new_id now a b c d = Some m \<Longrightarrow> cm_name m \<noteq> []"
  by (auto simp: coerceMaterial_def Let_def split: if_splits)

lemma parse_rows_names:
  "\<forall>m \<in> set (parse_rows lower Number fresh now n rows). cm_name m \<noteq> []"
proof (induction rows arbitrary: n)
  case Nil
  show ?case by simp
next
  case (Cons row rows)
  show ?case
    using Cons.IH [of "Suc n"]
    by (auto simp: Let_def dest: coerceMaterial_name split: option.splits)
qed

lemma parseCsvToMaterials_names:
  "m \<in> set (parseCsvToMaterials lower Number fresh now csv) \<Longrightarrow> cm_name m \<noteq> []"
  using parse_rows_names [of lower Number fresh now 0]
  by (auto simp: parseCsvToMaterials_def Let_def split: if_splits)

lemmas csv_eval_defs =
  parseCsvToMaterials_def row_cols_def strip_quotes_def col_def coerceMaterial_def trim_def
  is_space_def toLowerCase_def lower_unit_def str_includes.simps opt_str_def Let_def
  ex_number_def ex_csv_new_def ex_csv_blank_def ex_csv_nan_def ex_parsed_def ascii_def

lemma ex_parse_new:
  "parseCsvToMaterials toLowerCase ex_number ex_ids (ex_clock 0) ex_csv_new
     = [ex_parsed 0 ''Board'' ''X1'' ''m'' (Num 10), ex_parsed 1 ''Panel'' ''x1'' ''m'' (Num 20)]"
  by (simp add: csv_eval_defs)

lemma ex_parse_blank:
  "parseCsvToMaterials toLowerCase ex_number ex_ids (ex_clock 0) ex_csv_blank
     = [ex_parsed 0 ''Board'' ''X1'' ''m'' (Num 10), ex_parsed 1 ''Panel'' ''x1'' [] (Num 0)]"
  by (simp add: csv_eval_defs)

lemma ex_parse_nan:
  "parseCsvToMaterials toLowerCase ex_number ex_ids (ex_clock 0) ex_csv_nan
     = [ex_parsed 0 ''Board'' ''X1'' ''m'' (Num 10), ex_parsed 1 ''Panel'' ''x1'' ''m'' NaN]"
  by (simp add: csv_eval_defs)

lemma ex_keys [simp]:
  "article_key toLowerCase (ex_parsed n nm ''X1'' un pr) = ascii ''x1''"
  "article_key toLowerCase (ex_parsed n nm ''x1'' un pr) = ascii ''x1''"
  "article_key toLowerCase ex_existing = ascii ''x1''"
  by (simp_all add: article_key_def ex_parsed_def ex_existing_def trim_def is_space_def
      toLowerCase_def lower_unit_def ascii_def)

lemma ex_import_existing:
  assumes "parseCsvToMaterials toLowerCase ex_number ex_ids (ex_clock 0) csv
      = [ex_parsed 0 ''Board'' ''X1'' ''m'' (Num 10), ex_parsed 1 ''Panel'' ''x1'' un pr]"
  shows "importCsv toLowerCase ex_number ex_ids ex_ids ex_clock [ex_existing] (Some csv)
      = [update_existing (ex_clock 1)
           (update_existing (ex_clock 0) ex_existing (ex_parsed 0 ''Board'' ''X1'' ''m'' (Num 10)))
           (ex_parsed 1 ''Panel'' ''x1'' un pr)]"
  by (simp add: importCsv_def assms merge_imported_def import_step_def Let_def)


text \<open>
  \<^bold>\<open>C6\<close> (import merge). The claim is that two rows with the same article leave one
  record with that article, with the fields of the later row. Two rows with an article
  the catalog does not hold yet are both added: the lookup table is built from the
  catalog before the loop and is not extended by it. Here the file \<open>Board,X1,m,10\<close> /
  \<open>Panel,x1,m,20\<close> goes into the empty catalog and leaves two records with the key \<open>x1\<close>.
  And a later row with an empty unit, a zero price or a price cell that is no numeral
  does not overwrite these fields: the files \<open>Board,X1,m,10\<close> / \<open>Panel,x1,,0\<close> and
  \<open>Board,X1,m,10\<close> / \<open>Panel,x1,m,n/a\<close> go into a catalog that holds \<open>X1\<close> and leave the unit
  \<open>m\<close> and the price \<open>10\<close> of the earlier row.
\<close>

theorem import_merge_counterexample:
  "map (article_key toLowerCase)
       (importCsv toLowerCase ex_number ex_ids ex_ids ex_clock [] (Some ex_csv_new))
     = [ascii ''x1'', ascii ''x1'']
   \<and> map cm_name (importCsv toLowerCase ex_number ex_ids ex_ids ex_clock [] (Some ex_csv_new))
     = [ascii ''Panel'', ascii ''Board'']
   \<and> map cm_unit (parseCsvToMaterials toLowerCase ex_number ex_ids (ex_clock 0) ex_csv_blank)
     = [ascii ''m'', []]
   \<and> map cm_price (parseCsvToMaterials toLowerCase ex_number ex_ids (ex_clock 0) ex_csv_blank)
     = [Num 10, Num 0]
   \<and> map cm_unit
       (importCsv toLowerCase ex_number ex_ids ex_ids ex_clock [ex_existing] (Some ex_csv_blank))
     = [ascii ''m'']
   \<and> map cm_price
       (importCsv toLowerCase ex_number ex_ids ex_ids ex_clock [ex_existing] (Some ex_csv_blank))
     = [Num 10]
   \<and> map cm_price (parseCsvToMaterials toLowerCase ex_number ex_ids (ex_clock 0) ex_csv_nan)
     = [Num 10, NaN]
   \<and> map cm_price
       (importCsv toLowerCase ex_number ex_ids ex_ids ex_clock [ex_existing] (Some ex_csv_nan))
     = [Num 10]"
proof -
  have a: "importCsv toLowerCase ex_number ex_ids ex_ids ex_clock [] (Some ex_csv_new)
      = [(ex_parsed 1 ''Panel'' ''x1'' ''m'' (Num 20))
           \<lparr>cm_id := ex_ids 1, cm_created_at := ex_clock 1, cm_updated_at := ex_clock 1\<rparr>,
         (ex_parsed 0 ''Board'' ''X1'' ''m'' (Num 10))
           \<lparr>cm_id := ex_ids 0, cm_created_at := ex_clock 0, cm_updated_at := ex_clock 0\<rparr>]"
    by (simp add: importCsv_def ex_parse_new merge_imported_def import_step_def Let_def)
  note b = ex_import_existing [OF ex_parse_blank]
  note n = ex_import_existing [OF ex_parse_nan]
  have c1: "map (article_key toLowerCase)
       (importCsv toLowerCase ex_number ex_ids ex_ids ex_clock [] (Some ex_csv_new))
     = [ascii ''x1'', ascii ''x1'']"
    by (simp add: a)
  have c2: "map cm_name (importCsv toLowerCase ex_number ex_ids ex_ids ex_clock [] (Some ex_csv_new))
     = [ascii ''Panel'', ascii ''Board'']"
    unfolding a by (simp add: ex_parsed_def)
  have c3: "map cm_unit (parseCsvToMaterials toLowerCase ex_number ex_ids (ex_clock 0) ex_csv_blank)
     = [ascii ''m'', []]"
    by (simp add: ex_parse_blank ex_parsed_def)
  have c4: "map cm_price (parseCsvToMaterials toLowerCase ex_number ex_ids (ex_clock 0) ex_csv_blank)
     = [Num 10, Num 0]"
    by (simp add: ex_parse_blank ex_parsed_def)
  have c5: "map cm_unit
       (importCsv toLowerCase ex_number ex_ids ex_ids ex_clock [ex_existing] (Some ex_csv_blank))
     = [ascii ''m'']"
    unfolding b by (simp add: update_existing_def ex_parsed_def ex_existing_def or_str_def)
  have c6: "map cm_price
       (importCsv toLowerCase ex_number ex_ids ex_ids ex_clock [ex_existing] (Some ex_csv_blank))
     = [Num 10]"
    unfolding b
    by (simp add: update_existing_def ex_parsed_def ex_existing_def or_jsnum_def falsy_num_def)
  have c7: "map cm_price (parseCsvToMaterials toLowerCase ex_number ex_ids (ex_clock 0) ex_csv_nan)
     = [Num 10, NaN]"
    by (simp add: ex_parse_nan ex_parsed_def)
  have c8: "map cm_price
       (importCsv toLowerCase ex_number ex_ids ex_ids ex_clock [ex_existing] (Some ex_csv_nan))
     = [Num 10]"
    unfolding n
    by (simp add: update_existing_def ex_parsed_def ex_existing_def or_jsnum_def falsy_num_def)
  show ?thesis
    using c1 c2 c3 c4 c5 c6 c7 c8 by blast
qed

text \<open>
  \<^bold>\<open>C6\<close> (import merge, as the code has it). Let the catalog hold exactly one record
  with the non-empty article key \<open>k\<close> (the article trimmed and in lower case; other
  articles may repeat), and let exactly two parsed rows have the key \<open>k\<close>. After the import
  exactly one record has the key \<open>k\<close>: the catalog's record, with its id, with the later
  row's name, with the later row's unit unless that is empty (then the earlier row's, and
  the old one if that is empty too), and with the later row's price unless that is zero
  or not a number (then the earlier row's, and the old one if that is zero or not a
  number too). This holds whatever \<open>toLowerCase\<close> and \<open>Number\<close> do.
\<close>

theorem import_merge_existing_article:
  assumes uniq: "\<forall>j<length stored. article_key lower (stored ! j) = k \<longrightarrow> j = i"
    and i: "i < length stored" "article_key lower (stored ! i) = k" "k \<noteq> []"
    and rows: "parseCsvToMaterials lower Number parse_ids (clock 0) csv
                 = front @ r1 # mid @ r2 # rest"
    and k1: "article_key lower r1 = k" and k2: "article_key lower r2 = k"
    and others: "\<forall>r \<in> set (front @ mid @ rest). article_key lower r \<noteq> k"
  shows "\<exists>e. filter (\<lambda>m. article_key lower m = k)
               (importCsv lower Number parse_ids fresh clock stored (Some csv)) = [e]
           \<and> cm_id e = cm_id (stored ! i)
           \<and> cm_name e = cm_name r2
           \<and> cm_unit e = or_str (cm_unit r2) (or_str (cm_unit r1) (cm_unit (stored ! i)))
           \<and> cm_price e
               = or_jsnum (cm_price r2) (or_jsnum (cm_price r1) (cm_price (stored ! i)))"
proof -
  let ?st = "merge_imported lower stored fresh clock (front @ r1 # mid @ r2 # rest)"
  from merge_two_rows [OF uniq i k1 k2 others, of fresh clock]
  obtain t1 t2 where inv: "import_inv lower stored k ?st"
    and v: "st_items ?st ! i = update_existing t2 (update_existing t1 (stored ! i) r1) r2"
    by blast
  have res: "importCsv lower Number parse_ids fresh clock stored (Some csv)
      = st_new ?st @ st_items ?st"
    using rows by (simp add: importCsv_def Let_def)
  have f: "filter (\<lambda>m. article_key lower m = k) (st_new ?st @ st_items ?st) = [st_items ?st ! i]"
    using uniq i(1,2) inv by (rule import_inv_filter)
  have "r2 \<in> set (parseCsvToMaterials lower Number parse_ids (clock 0) csv)"
    using rows by simp
  then have n2: "cm_name r2 \<noteq> []"
    by (rule parseCsvToMaterials_names)
  have fields: "cm_id (st_items ?st ! i) = cm_id (stored ! i)
      \<and> cm_name (st_items ?st ! i) = cm_name r2
      \<and> cm_unit (st_items ?st ! i) = or_str (cm_unit r2) (or_str (cm_unit r1) (cm_unit (stored ! i)))
      \<and> cm_price (st_items ?st ! i)
          = or_jsnum (cm_price r2) (or_jsnum (cm_price r1) (cm_price (stored ! i)))"
    using n2 by (simp add: v update_existing_def or_str_def)
  show ?thesis
    using res f fields by simp
qed

theorem import_merge_existing_article_witness:
  "article_key toLowerCase ([ex_existing] ! 0) = ascii ''x1''
   \<and> map (article_key toLowerCase)
         (parseCsvToMaterials toLowerCase ex_number ex_ids (ex_clock 0) ex_csv_new)
       = [ascii ''x1'', ascii ''x1'']
   \<and> filter (\<lambda>m. article_key toLowerCase m = ascii ''x1'')
        (importCsv toLowerCase ex_number ex_ids ex_ids ex_clock [ex_existing] (Some ex_csv_new))
      = [ex_existing\<lparr>cm_name := ascii ''Panel'', cm_unit := ascii ''m'', cm_price := Num 20,
                      cm_updated_at := ex_clock 1\<rparr>]"
proof -
  have h1: "\<forall>j<length [ex_existing]. article_key toLowerCase ([ex_existing] ! j) = ascii ''x1''
      \<longrightarrow> j = 0"
    by simp
  have h2: "0 < length [ex_existing]"
    by simp
  have h3: "article_key toLowerCase ([ex_existing] ! 0) = ascii ''x1''"
    by simp
  have h4: "ascii ''x1'' \<noteq> []"
    by simp
  have h5: "parseCsvToMaterials toLowerCase ex_number ex_ids (ex_clock 0) ex_csv_new
      = [] @ ex_parsed 0 ''Board'' ''X1'' ''m'' (Num 10) # []
          @ ex_parsed 1 ''Panel'' ''x1'' ''m'' (Num 20) # []"
    by (simp add: ex_parse_new)
  have h6: "article_key toLowerCase (ex_parsed 0 ''Board'' ''X1'' ''m'' (Num 10)) = ascii ''x1''"
    and h7: "article_key toLowerCase (ex_parsed 1 ''Panel'' ''x1'' ''m'' (Num 20)) = ascii ''x1''"
    by simp_all
  have h8: "\<forall>r \<in> set ([] @ [] @ []). article_key toLowerCase r \<noteq> ascii ''x1''"
    by simp
  have ks: "map (article_key toLowerCase)
         (parseCsvToMaterials toLowerCase ex_number ex_ids (ex_clock 0) ex_csv_new)
       = [ascii ''x1'', ascii ''x1'']"
    by (simp add: ex_parse_new)
  note th = import_merge_existing_article [where stored = "[ex_existing]" and i = 0
      and k = "ascii ''x1''" and lower = toLowerCase and Number = ex_number and parse_ids = ex_ids
      and clock = ex_clock and csv = ex_csv_new and front = "[]" and mid = "[]" and rest = "[]"
      and ?r1.0 = "ex_parsed 0 ''Board'' ''X1'' ''m'' (Num 10)"
      and ?r2.0 = "ex_parsed 1 ''Panel'' ''x1'' ''m'' (Num 20)" and fresh = ex_ids,
      OF h1 h2 h3 h4 h5 h6 h7 h8]
  from th obtain e where e: "filter (\<lambda>m. article_key toLowerCase m = ascii ''x1'')
        (importCsv toLowerCase ex_number ex_ids ex_ids ex_clock [ex_existing] (Some ex_csv_new))
      = [e]"
    and "cm_name e = cm_name (ex_parsed 1 ''Panel'' ''x1'' ''m'' (Num 20))"
    by blast
  note v = ex_import_existing [OF ex_parse_new]
  have u: "update_existing (ex_clock 1)
           (update_existing (ex_clock 0) ex_existing (ex_parsed 0 ''Board'' ''X1'' ''m'' (Num 10)))
           (ex_parsed 1 ''Panel'' ''x1'' ''m'' (Num 20))
      = ex_existing\<lparr>cm_name := ascii ''Panel'', cm_unit := ascii ''m'', cm_price := Num 20,
                      cm_updated_at := ex_clock 1\<rparr>"
    by (simp add: update_existing_def ex_parsed_def ex_existing_def or_str_def or_jsnum_def
        falsy_num_def)
  have "e = ex_existing\<lparr>cm_name := ascii ''Panel'', cm_unit := ascii ''m'', cm_price := Num 20,
                      cm_updated_at := ex_clock 1\<rparr>"
    using e v u by simp
  with e have f: "filter (\<lambda>m. article_key toLowerCase m = ascii ''x1'')
        (importCsv toLowerCase ex_number ex_ids ex_ids ex_clock [ex_existing] (Some ex_csv_new))
      = [ex_existing\<lparr>cm_name := ascii ''Panel'', cm_unit := ascii ''m'', cm_price := Num 20,
                      cm_updated_at := ex_clock 1\<rparr>]"
    by simp
  show ?thesis
    using h3 ks f by blast
qed

end
